theory Spec2Isabelle
  imports Complex_Main "HOL-Library.AList" "HOL-Library.Signed_Division"
begin

section \<open>The compound cloud system of src/microbe_stage/compound_cloud_system.cpp\<close>

text \<open>
  The C++ type \<^verbatim>\<open>float\<close> is a type parameter \<open>'f\<close>, and every operation that the
  source performs on it is a field of the record \<open>params\<close>: the definitions apply the
  operations where the source does and assume nothing about them, so a theorem
  about all \<open>params\<close> holds for binary32 with its rounding, its infinities and its
  NaN. A hypothesis on the operations is written in the theorem that needs it.

  Fixed-size arrays (the four compound slots of a cloud and the two density grids of
  a slot) are functions from the index; the loops of the source supply the bounds. A
  pointer to a cloud component is the entity id of the component, \<open>None\<close> being the
  null pointer, and the components live in a store from entity ids to components.
\<close>

subsection \<open>Vectors, float operations and constants\<close>

type_synonym CompoundId = nat
type_synonym ObjectID = nat

datatype 'f Float3 = Float3 (X: 'f) (Y: 'f) (Z: 'f)
datatype 'f Float2 = Float2 (X: 'f) (Y: 'f)
datatype Int2 = Int2 (X: int) (Y: int)

text \<open>
  The operations on \<^verbatim>\<open>float\<close>: \<open>fadd\<close>, \<open>fsub\<close>, \<open>fmul\<close>, \<open>fdiv\<close> are \<^verbatim>\<open>+ - * /\<close>;
  \<open>flt a b\<close>, \<open>fle a b\<close>, \<open>feq a b\<close> are \<^verbatim>\<open>a < b\<close>, \<^verbatim>\<open>a <= b\<close>, \<^verbatim>\<open>a == b\<close>; \<open>fabs\<close>,
  \<open>ffloor\<close>, \<open>fround\<close> are \<^verbatim>\<open>std::abs\<close>, \<^verbatim>\<open>std::floor\<close>, \<^verbatim>\<open>std::round\<close>; \<open>fint\<close>
  converts an integer to \<^verbatim>\<open>float\<close> (an integer literal or variable in a float
  expression, and \<^verbatim>\<open>0.0f\<close>, \<^verbatim>\<open>1.0f\<close>); \<open>flit\<close> is the value of a fractional literal
  such as \<^verbatim>\<open>0.5f\<close>; \<open>to_int\<close> and \<open>to_size_t\<close> are \<^verbatim>\<open>static_cast<int>\<close> and
  \<^verbatim>\<open>static_cast<size_t>\<close>.

  The constants of the headers, which are not among the sources, are further fields.
  \<open>CLOUD_WIDTH\<close> and \<open>CLOUD_HEIGHT\<close> are the half extents of a cloud in world units,
  \<open>CLOUD_X_EXTENT\<close> and \<open>CLOUD_Y_EXTENT\<close> the distance between two cloud centres; the
  constants that enter float expressions are given as their \<^verbatim>\<open>float\<close> values.
\<close>

record 'f params =
  fadd :: "'f \<Rightarrow> 'f \<Rightarrow> 'f"
  fsub :: "'f \<Rightarrow> 'f \<Rightarrow> 'f"
  fmul :: "'f \<Rightarrow> 'f \<Rightarrow> 'f"
  fdiv :: "'f \<Rightarrow> 'f \<Rightarrow> 'f"
  flt :: "'f \<Rightarrow> 'f \<Rightarrow> bool"
  fle :: "'f \<Rightarrow> 'f \<Rightarrow> bool"
  feq :: "'f \<Rightarrow> 'f \<Rightarrow> bool"
  fabs :: "'f \<Rightarrow> 'f"
  ffloor :: "'f \<Rightarrow> 'f"
  fround :: "'f \<Rightarrow> 'f"
  fint :: "int \<Rightarrow> 'f"
  flit :: "real \<Rightarrow> 'f"
  to_int :: "'f \<Rightarrow> int"
  to_size_t :: "'f \<Rightarrow> nat"
  CLOUD_SIMULATION_WIDTH :: nat
  CLOUD_SIMULATION_HEIGHT :: nat
  CLOUD_RESOLUTION :: 'f
  CLOUD_WIDTH :: 'f
  CLOUD_HEIGHT :: 'f
  CLOUD_X_EXTENT :: 'f
  CLOUD_Y_EXTENT :: 'f
  NULL_COMPOUND :: CompoundId
  EPSILON :: 'f
  TICKSPEED :: int

definition CLOUDS_IN_ONE :: nat where
  "CLOUDS_IN_ONE = 4"

datatype error = RuntimeError | InvalidArgument | AssertionFailed | FatalError

text \<open>\<^verbatim>\<open>a > b\<close> and \<^verbatim>\<open>a >= b\<close> are \<^verbatim>\<open>b < a\<close> and \<^verbatim>\<open>b <= a\<close>.\<close>

definition fgt :: "'f params \<Rightarrow> 'f \<Rightarrow> 'f \<Rightarrow> bool" where
  "fgt P a b = flt P b a"

definition fge :: "'f params \<Rightarrow> 'f \<Rightarrow> 'f \<Rightarrow> bool" where
  "fge P a b = fle P b a"

text \<open>The operators of the engine's vectors, component by component.\<close>

definition sub3 :: "'f params \<Rightarrow> 'f Float3 \<Rightarrow> 'f Float3 \<Rightarrow> 'f Float3" where
  "sub3 P a b = Float3 (fsub P (Float3.X a) (Float3.X b)) (fsub P (Float3.Y a) (Float3.Y b))
                       (fsub P (Float3.Z a) (Float3.Z b))"

definition add3 :: "'f params \<Rightarrow> 'f Float3 \<Rightarrow> 'f Float3 \<Rightarrow> 'f Float3" where
  "add3 P a b = Float3 (fadd P (Float3.X a) (Float3.X b)) (fadd P (Float3.Y a) (Float3.Y b))
                       (fadd P (Float3.Z a) (Float3.Z b))"

text \<open>\<^verbatim>\<open>a != b\<close> on \<^verbatim>\<open>Float3\<close>: some component differs.\<close>

definition ne3 :: "'f params \<Rightarrow> 'f Float3 \<Rightarrow> 'f Float3 \<Rightarrow> bool" where
  "ne3 P a b \<longleftrightarrow> \<not> feq P (Float3.X a) (Float3.X b) \<or> \<not> feq P (Float3.Y a) (Float3.Y b) \<or>
                \<not> feq P (Float3.Z a) (Float3.Z b)"

text \<open>\<^verbatim>\<open>Float3::HAddAbs\<close>: the sum of the absolute values of the components.\<close>

definition HAddAbs :: "'f params \<Rightarrow> 'f Float3 \<Rightarrow> 'f" where
  "HAddAbs P v = fadd P (fadd P (fabs P (Float3.X v)) (fabs P (Float3.Y v))) (fabs P (Float3.Z v))"

text \<open>\<^verbatim>\<open>Float3(0, 0, 0)\<close>.\<close>

definition origin :: "'f params \<Rightarrow> 'f Float3" where
  "origin P = Float3 (fint P 0) (fint P 0) (fint P 0)"

text \<open>\<^verbatim>\<open>std::clamp(v, lo, hi)\<close>.\<close>

definition std_clamp :: "'f params \<Rightarrow> 'f \<Rightarrow> 'f \<Rightarrow> 'f \<Rightarrow> 'f" where
  "std_clamp P v lo hi = (if flt P v lo then lo else if flt P hi v then hi else v)"

subsection \<open>Grid index and tiling\<close>

definition cloudContainsPosition :: "'f params \<Rightarrow> 'f Float3 \<Rightarrow> 'f Float3 \<Rightarrow> bool" where
  "cloudContainsPosition P cloudPosition worldPosition =
     (\<not> (flt P (Float3.X worldPosition) (fsub P (Float3.X cloudPosition) (CLOUD_WIDTH P)) \<or>
         fge P (Float3.X worldPosition) (fadd P (Float3.X cloudPosition) (CLOUD_WIDTH P)) \<or>
         flt P (Float3.Z worldPosition) (fsub P (Float3.Z cloudPosition) (CLOUD_HEIGHT P)) \<or>
         fge P (Float3.Z worldPosition) (fadd P (Float3.Z cloudPosition) (CLOUD_HEIGHT P))))"

definition cloudContainsPositionWithRadius ::
  "'f params \<Rightarrow> 'f Float3 \<Rightarrow> 'f Float3 \<Rightarrow> 'f \<Rightarrow> bool" where
  "cloudContainsPositionWithRadius P cloudPosition worldPosition radius =
     (\<not> (flt P (fadd P (Float3.X worldPosition) radius) (fsub P (Float3.X cloudPosition) (CLOUD_WIDTH P)) \<or>
         fge P (fsub P (Float3.X worldPosition) radius) (fadd P (Float3.X cloudPosition) (CLOUD_WIDTH P)) \<or>
         flt P (fadd P (Float3.Z worldPosition) radius) (fsub P (Float3.Z cloudPosition) (CLOUD_HEIGHT P)) \<or>
         fge P (fsub P (Float3.Z worldPosition) radius) (fadd P (Float3.Z cloudPosition) (CLOUD_HEIGHT P))))"

definition convertWorldToCloudLocal ::
  "'f params \<Rightarrow> 'f Float3 \<Rightarrow> 'f Float3 \<Rightarrow> error + (nat \<times> nat)" where
  "convertWorldToCloudLocal P cloudPosition worldPosition =
     (let topLeftRelative =
            Float3 (fsub P (Float3.X worldPosition) (fsub P (Float3.X cloudPosition) (CLOUD_WIDTH P)))
                   (fint P 0)
                   (fsub P (Float3.Z worldPosition) (fsub P (Float3.Z cloudPosition) (CLOUD_HEIGHT P)));
          localX = to_size_t P (ffloor P (fdiv P (Float3.X topLeftRelative) (CLOUD_RESOLUTION P)));
          localY = to_size_t P (ffloor P (fdiv P (Float3.Z topLeftRelative) (CLOUD_RESOLUTION P)))
      in if localX \<ge> CLOUD_SIMULATION_WIDTH P \<or> localY \<ge> CLOUD_SIMULATION_HEIGHT P
         then Inl InvalidArgument
         else Inr (localX, localY))"

definition convertWorldToCloudLocalForGrab :: "'f params \<Rightarrow> 'f Float3 \<Rightarrow> 'f Float3 \<Rightarrow> 'f \<times> 'f" where
  "convertWorldToCloudLocalForGrab P cloudPosition worldPosition =
     (let topLeftRelative =
            Float3 (fsub P (Float3.X worldPosition) (fsub P (Float3.X cloudPosition) (CLOUD_WIDTH P)))
                   (fint P 0)
                   (fsub P (Float3.Z worldPosition) (fsub P (Float3.Z cloudPosition) (CLOUD_HEIGHT P)));
          localX = ffloor P (fdiv P (Float3.X topLeftRelative) (CLOUD_RESOLUTION P));
          localY = ffloor P (fdiv P (Float3.Z topLeftRelative) (CLOUD_RESOLUTION P))
      in (localX, localY))"

definition calculateGridCenterForPlayerPos :: "'f params \<Rightarrow> 'f Float3 \<Rightarrow> 'f Float3" where
  "calculateGridCenterForPlayerPos P pos =
     Float3 (fmul P (fint P (to_int P (fround P (fdiv P (Float3.X pos) (CLOUD_X_EXTENT P)))))
                    (CLOUD_X_EXTENT P))
            (fint P 0)
            (fmul P (fint P (to_int P (fround P (fdiv P (Float3.Z pos) (CLOUD_Y_EXTENT P)))))
                    (CLOUD_Y_EXTENT P))"

subsection \<open>CompoundCloudComponent\<close>

type_synonym 'f grid = "nat \<Rightarrow> nat \<Rightarrow> 'f"

text \<open>\<^verbatim>\<open>g[x][y] = v\<close>.\<close>

definition gridSet :: "'f grid \<Rightarrow> nat \<Rightarrow> nat \<Rightarrow> 'f \<Rightarrow> 'f grid" where
  "gridSet g x y v = g(x := (g x)(y := v))"

text \<open>The nested loops \<^verbatim>\<open>for(x = 0; x < w; x++) for(y = 0; y < h; y++) body\<close>.\<close>

definition forCells :: "nat \<Rightarrow> nat \<Rightarrow> (nat \<Rightarrow> nat \<Rightarrow> 'a \<Rightarrow> 'a) \<Rightarrow> 'a \<Rightarrow> 'a" where
  "forCells w h body = fold (\<lambda>x. fold (\<lambda>y. body x y) [0..<h]) [0..<w]"

text \<open>The fields of \<^verbatim>\<open>Compound\<close> (simulation_parameters.h) that the cloud system reads.\<close>

record 'f Compound =
  id_compound :: CompoundId
  viscosity_compound :: 'f

text \<open>\<^verbatim>\<open>CloudData\<close>: \<open>id_cloud\<close> is its member \<^verbatim>\<open>id\<close>; the colour is left to the renderer.\<close>

record 'f CloudData =
  id_cloud :: CompoundId
  viscosity :: 'f
  density :: "'f grid"
  oldDensity :: "'f grid"

record 'f CompoundCloudComponent =
  clouds :: "nat \<Rightarrow> 'f CloudData"
  m_position :: "'f Float3"
  m_initialized :: bool
  m_upperCloud :: "ObjectID option"
  m_lowerCloud :: "ObjectID option"
  m_leftCloud :: "ObjectID option"
  m_rightCloud :: "ObjectID option"

type_synonym 'f heap = "ObjectID \<Rightarrow> 'f CompoundCloudComponent"

text \<open>
  Modelled from the spec: the default member initialisers of \<^verbatim>\<open>CloudData\<close> and of
  \<^verbatim>\<open>CompoundCloudComponent\<close> are in the header, which is not among the sources. The spec
  says that unused slots carry the empty sentinel and never hold nonzero density. The
  viscosity of an empty slot is never read.
\<close>

definition defaultCloudData :: "'f params \<Rightarrow> 'f CloudData" where
  "defaultCloudData P =
     \<lparr>id_cloud = NULL_COMPOUND P, viscosity = fint P 1,
      density = (\<lambda>x y. fint P 0), oldDensity = (\<lambda>x y. fint P 0)\<rparr>"

definition new_CompoundCloudComponent ::
  "'f params \<Rightarrow> 'f Compound option \<Rightarrow> 'f Compound option \<Rightarrow> 'f Compound option \<Rightarrow>
   'f Compound option \<Rightarrow> error + 'f CompoundCloudComponent" where
  "new_CompoundCloudComponent P first second third fourth =
     (if first = None then Inl RuntimeError
      else let aux = (\<lambda>i::nat. if i = 0 then first else if i = 1 then second
                              else if i = 2 then third else if i = 3 then fourth else None)
           in Inr \<lparr>clouds = (\<lambda>i. case (if i < CLOUDS_IN_ONE then aux i else None) of
                                  Some c \<Rightarrow> (defaultCloudData P)\<lparr>id_cloud := id_compound c,
                                                                viscosity := viscosity_compound c\<rparr>
                                | None \<Rightarrow> defaultCloudData P),
                   m_position = origin P, m_initialized = False,
                   m_upperCloud = None, m_lowerCloud = None,
                   m_leftCloud = None, m_rightCloud = None\<rparr>)"

definition getSlotForCompound :: "'f CompoundCloudComponent \<Rightarrow> CompoundId \<Rightarrow> error + nat" where
  "getSlotForCompound c compound =
     (case find (\<lambda>i. compound = id_cloud (clouds c i)) [0..<CLOUDS_IN_ONE] of
        Some i \<Rightarrow> Inr i
      | None \<Rightarrow> Inl RuntimeError)"

definition handlesCompound :: "'f CompoundCloudComponent \<Rightarrow> CompoundId \<Rightarrow> bool" where
  "handlesCompound c compound = list_ex (\<lambda>i. compound = id_cloud (clouds c i)) [0..<CLOUDS_IN_ONE]"

text \<open>\<^verbatim>\<open>clouds[slot].density[x][y] = v\<close> and \<^verbatim>\<open>clouds[slot].oldDensity[x][y] = v\<close>.\<close>

definition setDensity ::
  "'f CompoundCloudComponent \<Rightarrow> nat \<Rightarrow> nat \<Rightarrow> nat \<Rightarrow> 'f \<Rightarrow> 'f CompoundCloudComponent" where
  "setDensity c slot x y v =
     c\<lparr>clouds := (clouds c)(slot := (clouds c slot)\<lparr>density := gridSet (density (clouds c slot)) x y v\<rparr>)\<rparr>"

definition setOldDensity ::
  "'f CompoundCloudComponent \<Rightarrow> nat \<Rightarrow> nat \<Rightarrow> nat \<Rightarrow> 'f \<Rightarrow> 'f CompoundCloudComponent" where
  "setOldDensity c slot x y v =
     c\<lparr>clouds := (clouds c)(slot := (clouds c slot)\<lparr>oldDensity := gridSet (oldDensity (clouds c slot)) x y v\<rparr>)\<rparr>"

definition component_addCloud ::
  "'f params \<Rightarrow> 'f CompoundCloudComponent \<Rightarrow> CompoundId \<Rightarrow> 'f \<Rightarrow> nat \<Rightarrow> nat \<Rightarrow>
   error + 'f CompoundCloudComponent" where
  "component_addCloud P c compound dens x y =
     (case getSlotForCompound c compound of
        Inl e \<Rightarrow> Inl e
      | Inr slot \<Rightarrow> Inr (setDensity c slot x y (fadd P (density (clouds c slot) x y) dens)))"

definition component_takeCompound ::
  "'f params \<Rightarrow> 'f CompoundCloudComponent \<Rightarrow> CompoundId \<Rightarrow> nat \<Rightarrow> nat \<Rightarrow> 'f \<Rightarrow>
   error + (int \<times> 'f CompoundCloudComponent)" where
  "component_takeCompound P c compound x y rate =
     (case getSlotForCompound c compound of
        Inl e \<Rightarrow> Inl e
      | Inr slot \<Rightarrow>
          (let amountToGive = to_int P (fmul P (density (clouds c slot) x y) rate);
               c1 = setDensity c slot x y (fsub P (density (clouds c slot) x y) (fint P amountToGive));
               c2 = (if flt P (density (clouds c1 slot) x y) (fint P 1)
                     then setDensity c1 slot x y (fint P 0) else c1)
           in Inr (amountToGive, c2)))"

definition component_amountAvailable ::
  "'f params \<Rightarrow> 'f CompoundCloudComponent \<Rightarrow> CompoundId \<Rightarrow> nat \<Rightarrow> nat \<Rightarrow> 'f \<Rightarrow> error + int" where
  "component_amountAvailable P c compound x y rate =
     (case getSlotForCompound c compound of
        Inl e \<Rightarrow> Inl e
      | Inr slot \<Rightarrow> Inr (to_int P (fmul P (density (clouds c slot) x y) rate)))"

definition getCompoundsAt ::
  "'f params \<Rightarrow> 'f CompoundCloudComponent \<Rightarrow> nat \<Rightarrow> nat \<Rightarrow> (CompoundId \<times> 'f) list \<Rightarrow>
   (CompoundId \<times> 'f) list" where
  "getCompoundsAt P c x y result =
     fold (\<lambda>i result.
             let cloudData = clouds c i in
             if id_cloud cloudData \<noteq> NULL_COMPOUND P then
               (let amount = density cloudData x y in
                if fgt P amount (fint P 0) then result @ [(id_cloud cloudData, amount)] else result)
             else result)
          [0..<CLOUDS_IN_ONE] result"

text \<open>
  The loop that \<open>recycleToPosition\<close> and \<open>initializeCloud\<close> share: every cell of both
  grids of every slot that is not empty is set to zero. The grids have
  \<open>CLOUD_SIMULATION_WIDTH\<close> columns of \<open>CLOUD_SIMULATION_HEIGHT\<close> cells.
\<close>

definition zeroAllDensities :: "'f params \<Rightarrow> 'f CompoundCloudComponent \<Rightarrow> 'f CompoundCloudComponent" where
  "zeroAllDensities P c =
     fold (\<lambda>i c.
             if id_cloud (clouds c i) \<noteq> NULL_COMPOUND P then
               forCells (CLOUD_SIMULATION_WIDTH P) (CLOUD_SIMULATION_HEIGHT P)
                 (\<lambda>x y c. setOldDensity (setDensity c i x y (fint P 0)) i x y (fint P 0)) c
             else c)
          [0..<CLOUDS_IN_ONE] c"

definition recycleToPosition ::
  "'f params \<Rightarrow> 'f CompoundCloudComponent \<Rightarrow> 'f Float3 \<Rightarrow> 'f CompoundCloudComponent" where
  "recycleToPosition P c newPosition = zeroAllDensities P (c\<lparr>m_position := newPosition\<rparr>)"

text \<open>\<open>initializeCloud\<close> without graphics (\<^verbatim>\<open>Ogre::Root::getSingletonPtr()\<close> is null).\<close>

definition initializeCloud :: "'f params \<Rightarrow> 'f CompoundCloudComponent \<Rightarrow> 'f CompoundCloudComponent" where
  "initializeCloud P cloud = (zeroAllDensities P cloud)\<lparr>m_initialized := True\<rparr>"

subsection \<open>CompoundCloudSystem: state and queries\<close>

text \<open>
  The members of the system, with the part of the world it uses: the store of the
  cloud components (\<open>components\<close>) and the counter behind \<^verbatim>\<open>world.CreateEntity()\<close>
  (\<open>nextEntity\<close>). \<open>m_managedClouds\<close> is an unordered map from the entity to its
  component; the model keeps the entities in the order in which the loops visit them.
\<close>

record 'f CompoundCloudSystem =
  m_cloudTypes :: "'f Compound list"
  m_managedClouds :: "ObjectID list"
  m_cloudGridCenter :: "'f Float3"
  m_tooFarAwayClouds :: "ObjectID option list"
  components :: "'f heap"
  nextEntity :: ObjectID

text \<open>
  The three queries return inside the loop over the managed clouds. The exception of
  \<open>convertWorldToCloudLocal\<close> is caught and answered with \<^verbatim>\<open>false\<close>; the exception
  of \<open>getSlotForCompound\<close> is not caught.
\<close>

fun addCloud_loop ::
  "'f params \<Rightarrow> CompoundId \<Rightarrow> 'f \<Rightarrow> 'f Float3 \<Rightarrow> ObjectID list \<Rightarrow> 'f CompoundCloudSystem \<Rightarrow>
   error + (bool \<times> 'f CompoundCloudSystem)" where
  "addCloud_loop P compound dens worldPosition [] s = Inr (False, s)"
| "addCloud_loop P compound dens worldPosition (cloud # rest) s =
     (let pos = m_position (components s cloud) in
      if cloudContainsPosition P pos worldPosition then
        (if \<not> handlesCompound (components s cloud) compound
         then addCloud_loop P compound dens worldPosition rest s
         else (case convertWorldToCloudLocal P pos worldPosition of
                 Inl e \<Rightarrow> Inr (False, s)
               | Inr (x, y) \<Rightarrow>
                   (case component_addCloud P (components s cloud) compound dens x y of
                      Inl e \<Rightarrow> Inl e
                    | Inr c \<Rightarrow> Inr (True, s\<lparr>components := (components s)(cloud := c)\<rparr>))))
      else addCloud_loop P compound dens worldPosition rest s)"

definition addCloud ::
  "'f params \<Rightarrow> 'f CompoundCloudSystem \<Rightarrow> CompoundId \<Rightarrow> 'f \<Rightarrow> 'f Float3 \<Rightarrow>
   error + (bool \<times> 'f CompoundCloudSystem)" where
  "addCloud P s compound dens worldPosition =
     addCloud_loop P compound dens worldPosition (m_managedClouds s) s"

fun takeCompound_loop ::
  "'f params \<Rightarrow> CompoundId \<Rightarrow> 'f Float3 \<Rightarrow> 'f \<Rightarrow> ObjectID list \<Rightarrow> 'f CompoundCloudSystem \<Rightarrow>
   error + ('f \<times> 'f CompoundCloudSystem)" where
  "takeCompound_loop P compound worldPosition rate [] s = Inr (fint P 0, s)"
| "takeCompound_loop P compound worldPosition rate (cloud # rest) s =
     (let pos = m_position (components s cloud) in
      if cloudContainsPosition P pos worldPosition then
        (if \<not> handlesCompound (components s cloud) compound
         then takeCompound_loop P compound worldPosition rate rest s
         else (case convertWorldToCloudLocal P pos worldPosition of
                 Inl e \<Rightarrow> Inr (fint P 0, s)
               | Inr (x, y) \<Rightarrow>
                   (case component_takeCompound P (components s cloud) compound x y rate of
                      Inl e \<Rightarrow> Inl e
                    | Inr (amount, c) \<Rightarrow>
                        Inr (fint P amount, s\<lparr>components := (components s)(cloud := c)\<rparr>))))
      else takeCompound_loop P compound worldPosition rate rest s)"

definition takeCompound ::
  "'f params \<Rightarrow> 'f CompoundCloudSystem \<Rightarrow> CompoundId \<Rightarrow> 'f Float3 \<Rightarrow> 'f \<Rightarrow>
   error + ('f \<times> 'f CompoundCloudSystem)" where
  "takeCompound P s compound worldPosition rate =
     takeCompound_loop P compound worldPosition rate (m_managedClouds s) s"

fun amountAvailable_loop ::
  "'f params \<Rightarrow> CompoundId \<Rightarrow> 'f Float3 \<Rightarrow> 'f \<Rightarrow> ObjectID list \<Rightarrow> 'f CompoundCloudSystem \<Rightarrow>
   error + 'f" where
  "amountAvailable_loop P compound worldPosition rate [] s = Inr (fint P 0)"
| "amountAvailable_loop P compound worldPosition rate (cloud # rest) s =
     (let pos = m_position (components s cloud) in
      if cloudContainsPosition P pos worldPosition then
        (if \<not> handlesCompound (components s cloud) compound
         then amountAvailable_loop P compound worldPosition rate rest s
         else (case convertWorldToCloudLocal P pos worldPosition of
                 Inl e \<Rightarrow> Inr (fint P 0)
               | Inr (x, y) \<Rightarrow>
                   (case component_amountAvailable P (components s cloud) compound x y rate of
                      Inl e \<Rightarrow> Inl e
                    | Inr amount \<Rightarrow> Inr (fint P amount))))
      else amountAvailable_loop P compound worldPosition rate rest s)"

definition amountAvailable ::
  "'f params \<Rightarrow> 'f CompoundCloudSystem \<Rightarrow> CompoundId \<Rightarrow> 'f Float3 \<Rightarrow> 'f \<Rightarrow> error + 'f" where
  "amountAvailable P s compound worldPosition rate =
     amountAvailable_loop P compound worldPosition rate (m_managedClouds s) s"

definition getAllAvailableAt ::
  "'f params \<Rightarrow> 'f CompoundCloudSystem \<Rightarrow> 'f Float3 \<Rightarrow> (CompoundId \<times> 'f) list" where
  "getAllAvailableAt P s worldPosition =
     fold (\<lambda>cloud result.
             let pos = m_position (components s cloud) in
             if cloudContainsPosition P pos worldPosition then
               (case convertWorldToCloudLocal P pos worldPosition of
                  Inl e \<Rightarrow> result
                | Inr (x, y) \<Rightarrow> getCompoundsAt P (components s cloud) x y result)
             else result)
          (m_managedClouds s) []"

definition cloudReportDestroyed :: "'f CompoundCloudSystem \<Rightarrow> ObjectID \<Rightarrow> 'f CompoundCloudSystem" where
  "cloudReportDestroyed s cloud = s\<lparr>m_managedClouds := remove1 cloud (m_managedClouds s)\<rparr>"

subsection \<open>Neighbour links\<close>

definition addInt2 :: "Int2 \<Rightarrow> Int2 \<Rightarrow> Int2" where
  "addInt2 a b = Int2 (Int2.X a + Int2.X b) (Int2.Y a + Int2.Y b)"

text \<open>
  The local map \<^verbatim>\<open>clouds\<close> of \<open>applyNewCloudPositioning\<close>, from a grid coordinate and
  the compound id of the group to the component, in the order of its entries.
  \<^verbatim>\<open>clouds[key]\<close> on a key that is absent yields the null pointer; the entry that
  \<^verbatim>\<open>operator[]\<close> then adds to the map is not a cloud and the model does not visit it.
\<close>

type_synonym cloudMap = "((Int2 \<times> CompoundId) \<times> ObjectID) list"

definition setUpCloudLinks :: "cloudMap \<Rightarrow> 'f heap \<Rightarrow> 'f heap" where
  "setUpCloudLinks cloudsMap h =
     fold (\<lambda>(index, cloudComponent) h.
             let tile = fst index; groupId = snd index in
             h(cloudComponent := (h cloudComponent)
                 \<lparr>m_upperCloud :=
                    (if Int2.Y tile = -1 then None
                     else map_of cloudsMap (addInt2 tile (Int2 0 (-1)), groupId)),
                  m_lowerCloud :=
                    (if Int2.Y tile = 1 then None
                     else map_of cloudsMap (addInt2 tile (Int2 0 1), groupId)),
                  m_leftCloud :=
                    (if Int2.X tile = -1 then None
                     else map_of cloudsMap (addInt2 tile (Int2 0 (-1)), groupId)),
                  m_rightCloud :=
                    (if Int2.X tile = 1 then None
                     else map_of cloudsMap (addInt2 tile (Int2 0 1), groupId))\<rparr>))
          cloudsMap h"

subsection \<open>Recentering and recycling\<close>

text \<open>
  Modelled from the spec: \<open>calculateGridPositions\<close> is declared in the header, which is
  not among the sources. The spec gives the nine required positions as the 3 by 3
  neighbourhood \<open>{-E, 0, E} \<times> {-E, 0, E}\<close> of the grid centre, each with its grid
  coordinate in \<open>{-1, 0, 1}\<close>; the order of the nine entries is not fixed by the spec.
\<close>

definition calculateGridPositions :: "'f params \<Rightarrow> 'f Float3 \<Rightarrow> (Int2 \<times> 'f Float3) list" where
  "calculateGridPositions P center =
     concat (map (\<lambda>gx. map (\<lambda>gy.
        (Int2 gx gy,
         add3 P center (Float3 (fmul P (fint P gx) (CLOUD_X_EXTENT P)) (fint P 0)
                               (fmul P (fint P gy) (CLOUD_Y_EXTENT P)))))
        [-1, 0, 1]) [-1, 0, 1])"

text \<open>The group loops \<^verbatim>\<open>for(size_t c = 0; c < m_cloudTypes.size(); c += CLOUDS_IN_ONE)\<close>.\<close>

definition groupStarts :: "nat \<Rightarrow> nat list" where
  "groupStarts n = filter (\<lambda>c. c mod CLOUDS_IN_ONE = 0) [0..<n]"

definition atRequiredPosition :: "'f params \<Rightarrow> 'f Float3 \<Rightarrow> Int2 \<times> 'f Float3 \<Rightarrow> bool" where
  "atRequiredPosition P pos requiredPos \<longleftrightarrow> flt P (HAddAbs P (sub3 P pos (snd requiredPos))) (EPSILON P)"

text \<open>
  \<^verbatim>\<open>LOG_FATAL\<close> and a failed \<^verbatim>\<open>LEVIATHAN_ASSERT\<close> end the run: the spec calls both
  fatal. They are the results \<open>Inl FatalError\<close> and \<open>Inl AssertionFailed\<close>.
\<close>

fun scanClouds ::
  "'f params \<Rightarrow> 'f heap \<Rightarrow> (Int2 \<times> 'f Float3) list \<Rightarrow> nat \<Rightarrow> ObjectID list \<Rightarrow>
   cloudMap \<times> ObjectID option list \<times> nat \<Rightarrow> error + (cloudMap \<times> ObjectID option list \<times> nat)" where
  "scanClouds P h requiredCloudPositions MAX_FAR_CLOUDS [] acc = Inr acc"
| "scanClouds P h requiredCloudPositions MAX_FAR_CLOUDS (cloudComponent # rest)
      (cloudsMap, tooFarAway, farAwayIndex) =
     (case find (atRequiredPosition P (m_position (h cloudComponent))) requiredCloudPositions of
        Some requiredPos \<Rightarrow>
          scanClouds P h requiredCloudPositions MAX_FAR_CLOUDS rest
            (AList.update (fst requiredPos, id_cloud (clouds (h cloudComponent) 0)) cloudComponent cloudsMap,
             tooFarAway, farAwayIndex)
      | None \<Rightarrow>
          if farAwayIndex \<ge> MAX_FAR_CLOUDS then Inl FatalError
          else scanClouds P h requiredCloudPositions MAX_FAR_CLOUDS rest
                 (cloudsMap, tooFarAway[farAwayIndex := Some cloudComponent], Suc farAwayIndex))"

definition hasCloud ::
  "'f params \<Rightarrow> 'f heap \<Rightarrow> ObjectID list \<Rightarrow> CompoundId \<Rightarrow> Int2 \<times> 'f Float3 \<Rightarrow> bool" where
  "hasCloud P h managed groupType requiredPos =
     list_ex (\<lambda>cloud. atRequiredPosition P (m_position (h cloud)) requiredPos \<and>
                      groupType = id_cloud (clouds (h cloud) 0)) managed"

fun findCandidate ::
  "'f heap \<Rightarrow> ObjectID option list \<Rightarrow> CompoundId \<Rightarrow> nat list \<Rightarrow> (nat \<times> ObjectID) option" where
  "findCandidate h tooFarAway groupType [] = None"
| "findCandidate h tooFarAway groupType (checkReposition # rest) =
     (case tooFarAway ! checkReposition of
        Some cloud \<Rightarrow>
          if id_cloud (clouds (h cloud) 0) = groupType then Some (checkReposition, cloud)
          else findCandidate h tooFarAway groupType rest
      | None \<Rightarrow> findCandidate h tooFarAway groupType rest)"

fun fillPositions ::
  "'f params \<Rightarrow> ObjectID list \<Rightarrow> nat \<Rightarrow> CompoundId \<Rightarrow> (Int2 \<times> 'f Float3) list \<Rightarrow>
   'f heap \<times> cloudMap \<times> ObjectID option list \<Rightarrow> error + ('f heap \<times> cloudMap \<times> ObjectID option list)" where
  "fillPositions P managed farAwayIndex groupType [] acc = Inr acc"
| "fillPositions P managed farAwayIndex groupType (requiredPos # rest) (h, cloudsMap, tooFarAway) =
     (if hasCloud P h managed groupType requiredPos
      then fillPositions P managed farAwayIndex groupType rest (h, cloudsMap, tooFarAway)
      else (case findCandidate h tooFarAway groupType [0..<farAwayIndex] of
              Some (checkReposition, cloud) \<Rightarrow>
                (let h' = h(cloud := recycleToPosition P (h cloud) (snd requiredPos))
                 in fillPositions P managed farAwayIndex groupType rest
                      (h',
                       AList.update (fst requiredPos, id_cloud (clouds (h' cloud) 0)) cloud cloudsMap,
                       tooFarAway[checkReposition := None]))
            | None \<Rightarrow> Inl FatalError))"

fun fillGroups ::
  "'f params \<Rightarrow> 'f Compound list \<Rightarrow> ObjectID list \<Rightarrow> nat \<Rightarrow> (Int2 \<times> 'f Float3) list \<Rightarrow> nat list \<Rightarrow>
   'f heap \<times> cloudMap \<times> ObjectID option list \<Rightarrow> error + ('f heap \<times> cloudMap \<times> ObjectID option list)" where
  "fillGroups P cloudTypes managed farAwayIndex requiredCloudPositions [] acc = Inr acc"
| "fillGroups P cloudTypes managed farAwayIndex requiredCloudPositions (c # rest) acc =
     (case fillPositions P managed farAwayIndex (id_compound (cloudTypes ! c)) requiredCloudPositions acc of
        Inl e \<Rightarrow> Inl e
      | Inr acc' \<Rightarrow> fillGroups P cloudTypes managed farAwayIndex requiredCloudPositions rest acc')"

text \<open>\<^verbatim>\<open>vector::resize(n)\<close>: cut to \<open>n\<close> entries, or filled up with null pointers.\<close>

definition resize :: "nat \<Rightarrow> ObjectID option list \<Rightarrow> ObjectID option list" where
  "resize n v = take n v @ replicate (n - length v) None"

definition applyNewCloudPositioning ::
  "'f params \<Rightarrow> 'f CompoundCloudSystem \<Rightarrow> error + 'f CompoundCloudSystem" where
  "applyNewCloudPositioning P s =
     (let requiredCloudPositions = calculateGridPositions P (m_cloudGridCenter s);
          MAX_FAR_CLOUDS = length (m_managedClouds s);
          tooFarAway0 = (if length (m_tooFarAwayClouds s) \<noteq> MAX_FAR_CLOUDS
                         then resize MAX_FAR_CLOUDS (m_tooFarAwayClouds s)
                         else m_tooFarAwayClouds s)
      in case scanClouds P (components s) requiredCloudPositions MAX_FAR_CLOUDS (m_managedClouds s)
                ([], tooFarAway0, 0) of
           Inl e \<Rightarrow> Inl e
         | Inr (cloudsMap, tooFarAway1, farAwayIndex) \<Rightarrow>
             (case fillGroups P (m_cloudTypes s) (m_managedClouds s) farAwayIndex requiredCloudPositions
                     (groupStarts (length (m_cloudTypes s))) (components s, cloudsMap, tooFarAway1) of
                Inl e \<Rightarrow> Inl e
              | Inr (h, cloudsMap', tooFarAway2) \<Rightarrow>
                  if list_ex (\<lambda>checkReposition. tooFarAway2 ! checkReposition \<noteq> None) [0..<farAwayIndex]
                  then Inl FatalError
                  else Inr (s\<lparr>m_tooFarAwayClouds := tooFarAway2,
                              components := setUpCloudLinks cloudsMap' h\<rparr>)))"

text \<open>\<open>spawnCloud\<close> is \<^verbatim>\<open>_spawnCloud\<close>.\<close>

definition spawnCloud ::
  "'f params \<Rightarrow> 'f CompoundCloudSystem \<Rightarrow> 'f Float3 \<Rightarrow> nat \<Rightarrow> error + 'f CompoundCloudSystem" where
  "spawnCloud P s pos startIndex =
     (let entity = nextEntity s;
          aux = (\<lambda>i. if startIndex + i < length (m_cloudTypes s)
                      then Some (m_cloudTypes s ! (startIndex + i)) else None)
      in case new_CompoundCloudComponent P (aux 0) (aux 1) (aux 2) (aux 3) of
           Inl e \<Rightarrow> Inl e
         | Inr cloud \<Rightarrow>
             Inr (s\<lparr>nextEntity := Suc entity,
                    m_managedClouds := m_managedClouds s @ [entity],
                    components := (components s)(entity := initializeCloud P (cloud\<lparr>m_position := pos\<rparr>))\<rparr>))"

fun spawnPositions ::
  "'f params \<Rightarrow> nat \<Rightarrow> (Int2 \<times> 'f Float3) list \<Rightarrow> 'f CompoundCloudSystem \<Rightarrow>
   error + 'f CompoundCloudSystem" where
  "spawnPositions P i [] s = Inr s"
| "spawnPositions P i (pos # rest) s =
     (case spawnCloud P s (snd pos) i of
        Inl e \<Rightarrow> Inl e
      | Inr s' \<Rightarrow> spawnPositions P i rest s')"

fun spawnGroups ::
  "'f params \<Rightarrow> (Int2 \<times> 'f Float3) list \<Rightarrow> nat list \<Rightarrow> 'f CompoundCloudSystem \<Rightarrow>
   error + 'f CompoundCloudSystem" where
  "spawnGroups P requiredCloudPositions [] s = Inr s"
| "spawnGroups P requiredCloudPositions (i # rest) s =
     (case spawnPositions P i requiredCloudPositions s of
        Inl e \<Rightarrow> Inl e
      | Inr s' \<Rightarrow> spawnGroups P requiredCloudPositions rest s')"

text \<open>The count that the assertion of \<open>doSpawnCycle\<close> compares with.\<close>

definition expectedCloudCount :: "nat \<Rightarrow> nat" where
  "expectedCloudCount n = (((n + 4 - 1) div 4 * 4) div 4) * 9"

definition doSpawnCycle ::
  "'f params \<Rightarrow> 'f CompoundCloudSystem \<Rightarrow> 'f Float3 \<Rightarrow> error + 'f CompoundCloudSystem" where
  "doSpawnCycle P s playerPos =
     (case (if m_managedClouds s = [] then
              (let s0 = s\<lparr>m_cloudGridCenter := origin P\<rparr>;
                   requiredCloudPositions = calculateGridPositions P (m_cloudGridCenter s0)
               in case spawnGroups P requiredCloudPositions (groupStarts (length (m_cloudTypes s0))) s0 of
                    Inl e \<Rightarrow> Inl e
                  | Inr s1 \<Rightarrow> applyNewCloudPositioning P s1)
            else Inr s) of
        Inl e \<Rightarrow> Inl e
      | Inr s2 \<Rightarrow>
          if length (m_managedClouds s2) \<noteq> expectedCloudCount (length (m_cloudTypes s2))
          then Inl AssertionFailed
          else (let targetCenter = calculateGridCenterForPlayerPos P playerPos in
                if ne3 P (m_cloudGridCenter s2) targetCenter
                then applyNewCloudPositioning P (s2\<lparr>m_cloudGridCenter := targetCenter\<rparr>)
                else Inr s2))"

definition registerCloudTypes ::
  "'f params \<Rightarrow> 'f CompoundCloudSystem \<Rightarrow> 'f Compound list \<Rightarrow> error + 'f CompoundCloudSystem" where
  "registerCloudTypes P s cloudTypes = doSpawnCycle P (s\<lparr>m_cloudTypes := cloudTypes\<rparr>) (origin P)"

subsection \<open>Diffusion and advection\<close>

text \<open>The body of the loops of \<open>diffuse\<close>, for the cell \<open>(x, y)\<close>.\<close>

definition diffuseCell :: "'f params \<Rightarrow> 'f \<Rightarrow> ObjectID \<Rightarrow> nat \<Rightarrow> nat \<Rightarrow> nat \<Rightarrow> 'f heap \<Rightarrow> 'f heap" where
  "diffuseCell P a cloudComponent slot x y h =
     (let c = h cloudComponent;
          cloudData = clouds c slot;
          upperDensity =
            (if y > 0 then oldDensity cloudData x (y - 1)
             else (case m_upperCloud c of
                     Some upper \<Rightarrow> oldDensity (clouds (h upper) slot) x (CLOUD_SIMULATION_HEIGHT P - 1)
                   | None \<Rightarrow> fint P 0));
          lowerDensity =
            (if int y < int (CLOUD_SIMULATION_HEIGHT P) - 1 then oldDensity cloudData x (y + 1)
             else (case m_lowerCloud c of
                     Some lower \<Rightarrow> oldDensity (clouds (h lower) slot) x 0
                   | None \<Rightarrow> fint P 0));
          leftDensity =
            (if x > 0 then oldDensity cloudData (x - 1) y
             else (case m_leftCloud c of
                     Some left \<Rightarrow> oldDensity (clouds (h left) slot) (CLOUD_SIMULATION_WIDTH P - 1) y
                   | None \<Rightarrow> fint P 0));
          rightDensity =
            (if int x < int (CLOUD_SIMULATION_WIDTH P) - 1 then oldDensity cloudData (x + 1) y
             else (case m_rightCloud c of
                     Some right \<Rightarrow> oldDensity (clouds (h right) slot) 0 y
                   | None \<Rightarrow> fint P 0))
      in h(cloudComponent :=
             setOldDensity c slot x y
               (fadd P (fmul P (density cloudData x y) (fsub P (fint P 1) a))
                  (fdiv P (fmul P (fadd P (fadd P (fadd P upperDensity lowerDensity) leftDensity)
                                          rightDensity) a)
                          (fint P 4)))))"

definition diffuse :: "'f params \<Rightarrow> 'f \<Rightarrow> 'f heap \<Rightarrow> ObjectID \<Rightarrow> nat \<Rightarrow> int \<Rightarrow> 'f heap" where
  "diffuse P diffRate h cloudComponent slot dt =
     (let a = fmul P (fint P dt) diffRate in
      forCells (CLOUD_SIMULATION_WIDTH P) (CLOUD_SIMULATION_HEIGHT P)
        (diffuseCell P a cloudComponent slot) h)"

definition addCloudDensity ::
  "'f params \<Rightarrow> 'f heap \<Rightarrow> ObjectID \<Rightarrow> nat \<Rightarrow> int \<Rightarrow> int \<Rightarrow> 'f \<Rightarrow> 'f heap" where
  "addCloudDensity P h cloudComponent slot x y v =
     (let (x', xComponent) =
            (if x < 0 then (int (CLOUD_SIMULATION_WIDTH P) - 1, m_leftCloud (h cloudComponent))
             else if x \<ge> int (CLOUD_SIMULATION_WIDTH P) then (0, m_rightCloud (h cloudComponent))
             else (x, Some cloudComponent))
      in case xComponent of
           None \<Rightarrow> h
         | Some xc \<Rightarrow>
             (let (y', yComponent) =
                    (if y < 0 then (int (CLOUD_SIMULATION_HEIGHT P) - 1, m_upperCloud (h xc))
                     else if y \<ge> int (CLOUD_SIMULATION_HEIGHT P) then (0, m_lowerCloud (h xc))
                     else (y, Some xc))
              in case yComponent of
                   None \<Rightarrow> h
                 | Some yc \<Rightarrow>
                     h(yc := setDensity (h yc) slot (nat x') (nat y')
                               (fadd P (density (clouds (h yc) slot) (nat x') (nat y')) v))))"

text \<open>
  \<open>getVelocityAt\<close> is the velocity field of the fluid system, a collaborator of the
  cloud system. The body of the second loop of \<open>advect\<close>, for the cell \<open>(x, y)\<close>:
\<close>

definition advectCell ::
  "'f params \<Rightarrow> ('f Float2 \<Rightarrow> 'f Float2) \<Rightarrow> ObjectID \<Rightarrow> nat \<Rightarrow> int \<Rightarrow> 'f Float2 \<Rightarrow> nat \<Rightarrow> nat \<Rightarrow>
   'f heap \<Rightarrow> 'f heap" where
  "advectCell P getVelocityAt cloudComponent slot dt pos x y h =
     (let cloudData = clouds (h cloudComponent) slot in
      if fgt P (oldDensity cloudData x y) (fint P 1) then
        (let sample = getVelocityAt
               (Float2 (fadd P (Float2.X pos) (fmul P (fint P (int x)) (CLOUD_RESOLUTION P)))
                       (fadd P (Float2.Y pos) (fmul P (fint P (int y)) (CLOUD_RESOLUTION P))));
             velocity = Float2 (fdiv P (Float2.X sample) (viscosity cloudData))
                               (fdiv P (Float2.Y sample) (viscosity cloudData));
             dx0 = fadd P (fint P (int x)) (fmul P (fint P dt) (Float2.X velocity));
             dy0 = fadd P (fint P (int y)) (fmul P (fint P dt) (Float2.Y velocity));
             dx = std_clamp P dx0 (flit P (1 / 2))
                    (fsub P (fint P (int (CLOUD_SIMULATION_WIDTH P))) (flit P (3 / 2)));
             dy = std_clamp P dy0 (flit P (1 / 2))
                    (fsub P (fint P (int (CLOUD_SIMULATION_HEIGHT P))) (flit P (3 / 2)));
             x0 = to_int P dx;
             x1 = x0 + 1;
             y0 = to_int P dy;
             y1 = y0 + 1;
             s1 = fsub P dx (fint P x0);
             s0 = fsub P (fint P 1) s1;
             t1 = fsub P dy (fint P y0);
             t0 = fsub P (fint P 1) t1;
             d = oldDensity cloudData x y;
             h1 = addCloudDensity P h cloudComponent slot x0 y0 (fmul P (fmul P d s0) t0);
             h2 = addCloudDensity P h1 cloudComponent slot x0 y1 (fmul P (fmul P d s0) t1);
             h3 = addCloudDensity P h2 cloudComponent slot x1 y0 (fmul P (fmul P d s1) t0)
         in addCloudDensity P h3 cloudComponent slot x1 y1 (fmul P (fmul P d s1) t1))
      else h)"

text \<open>The first loop of \<open>advect\<close>, which sets every cell of the density grid to zero.\<close>

definition advectClear :: "'f params \<Rightarrow> 'f heap \<Rightarrow> ObjectID \<Rightarrow> nat \<Rightarrow> 'f heap" where
  "advectClear P h cloudComponent slot =
     forCells (CLOUD_SIMULATION_WIDTH P) (CLOUD_SIMULATION_HEIGHT P)
       (\<lambda>x y h. h(cloudComponent := setDensity (h cloudComponent) slot x y (fint P 0))) h"

definition advect ::
  "'f params \<Rightarrow> ('f Float2 \<Rightarrow> 'f Float2) \<Rightarrow> 'f heap \<Rightarrow> ObjectID \<Rightarrow> nat \<Rightarrow> int \<Rightarrow> 'f Float2 \<Rightarrow> 'f heap" where
  "advect P getVelocityAt h cloudComponent slot dt pos =
     forCells (CLOUD_SIMULATION_WIDTH P) (CLOUD_SIMULATION_HEIGHT P)
       (advectCell P getVelocityAt cloudComponent slot dt pos)
       (advectClear P h cloudComponent slot)"

text \<open>\<open>processCloud\<close> without graphics (the cloud has no texture).\<close>

definition processCloud ::
  "'f params \<Rightarrow> ('f Float2 \<Rightarrow> 'f Float2) \<Rightarrow> 'f heap \<Rightarrow> ObjectID \<Rightarrow> int \<Rightarrow> 'f heap" where
  "processCloud P getVelocityAt h cloud renderTime0 =
     (let renderTime = renderTime0 sdiv 10;
          pos = Float2 (Float3.X (m_position (h cloud))) (Float3.Z (m_position (h cloud)))
      in fold (\<lambda>slot h.
                 if id_cloud (clouds (h cloud) slot) \<noteq> NULL_COMPOUND P then
                   advect P getVelocityAt (diffuse P (flit P (7 / 1000)) h cloud slot renderTime)
                     cloud slot renderTime pos
                 else h)
              [0..<CLOUDS_IN_ONE] h)"

fun processClouds ::
  "'f params \<Rightarrow> ('f Float2 \<Rightarrow> 'f Float2) \<Rightarrow> ObjectID list \<Rightarrow> 'f heap \<Rightarrow> error + 'f heap" where
  "processClouds P getVelocityAt [] h = Inr h"
| "processClouds P getVelocityAt (cloud # rest) h =
     (if \<not> m_initialized (h cloud) then Inl AssertionFailed
      else processClouds P getVelocityAt rest (processCloud P getVelocityAt h cloud (TICKSPEED P)))"

text \<open>
  \<open>Run\<close>: one tick. \<open>isAuthoritative\<close> is the network setting of the world and
  \<open>position\<close> the position of the player's creature, or the origin without one.
\<close>

definition Run ::
  "'f params \<Rightarrow> ('f Float2 \<Rightarrow> 'f Float2) \<Rightarrow> bool \<Rightarrow> 'f CompoundCloudSystem \<Rightarrow> 'f Float3 \<Rightarrow>
   error + 'f CompoundCloudSystem" where
  "Run P getVelocityAt isAuthoritative s position =
     (if \<not> isAuthoritative then Inr s
      else (case doSpawnCycle P s position of
              Inl e \<Rightarrow> Inl e
            | Inr s1 \<Rightarrow>
                (case processClouds P getVelocityAt (m_managedClouds s1) (components s1) of
                   Inl e \<Rightarrow> Inl e
                 | Inr h \<Rightarrow> Inr (s1\<lparr>components := h\<rparr>))))"

subsection \<open>Concrete values for evaluating the definitions\<close>

text \<open>
  \<open>P3\<close> interprets \<^verbatim>\<open>float\<close> by the real numbers with exact operations and gives
  clouds of 3 by 3 cells of 2 world units. Exact arithmetic agrees with binary32 on
  an input where every intermediate result is a number that binary32 represents; the
  evaluations below are at such inputs (small integers and halves and quarters).
\<close>

definition P3 :: "real params" where
  "P3 = \<lparr>fadd = (+), fsub = (-), fmul = (*), fdiv = (/),
         flt = (<), fle = (\<le>), feq = (=),
         fabs = abs, ffloor = (\<lambda>v. real_of_int \<lfloor>v\<rfloor>),
         fround = (\<lambda>v. real_of_int (if 0 \<le> v then \<lfloor>v + 1 / 2\<rfloor> else \<lceil>v - 1 / 2\<rceil>)),
         fint = real_of_int, flit = (\<lambda>v. v),
         to_int = (\<lambda>v. if 0 \<le> v then \<lfloor>v\<rfloor> else \<lceil>v\<rceil>),
         to_size_t = (\<lambda>v. nat \<lfloor>v\<rfloor>),
         CLOUD_SIMULATION_WIDTH = 3, CLOUD_SIMULATION_HEIGHT = 3, CLOUD_RESOLUTION = 2,
         CLOUD_WIDTH = 3, CLOUD_HEIGHT = 3, CLOUD_X_EXTENT = 6, CLOUD_Y_EXTENT = 6,
         NULL_COMPOUND = 0, EPSILON = 1 / 1000, TICKSPEED = 50\<rparr>"

text \<open>A system before \<open>registerCloudTypes\<close>: no compound types, no clouds.\<close>

definition emptyComponent :: "'f params \<Rightarrow> 'f CompoundCloudComponent" where
  "emptyComponent P =
     \<lparr>clouds = (\<lambda>i. defaultCloudData P), m_position = origin P, m_initialized = False,
      m_upperCloud = None, m_lowerCloud = None, m_leftCloud = None, m_rightCloud = None\<rparr>"

definition newSystem :: "'f params \<Rightarrow> 'f CompoundCloudSystem" where
  "newSystem P =
     \<lparr>m_cloudTypes = [], m_managedClouds = [], m_cloudGridCenter = origin P,
      m_tooFarAwayClouds = [], components = (\<lambda>i. emptyComponent P), nextEntity = 1\<rparr>"

text \<open>
  The map that \<open>applyNewCloudPositioning\<close> hands to \<open>setUpCloudLinks\<close> for one group
  (compound id 7) whose nine clouds are the entities 1 to 9, column by column: entity
  5 is the centre \<open>(0, 0)\<close>, entity 2 is \<open>(-1, 0)\<close>, entity 4 is \<open>(0, -1)\<close>.
\<close>

definition grid3 :: cloudMap where
  "grid3 = [((Int2 (-1) (-1), 7), 1), ((Int2 (-1) 0, 7), 2), ((Int2 (-1) 1, 7), 3),
            ((Int2 0 (-1), 7), 4), ((Int2 0 0, 7), 5), ((Int2 0 1, 7), 6),
            ((Int2 1 (-1), 7), 7), ((Int2 1 0, 7), 8), ((Int2 1 1, 7), 9)]"

text \<open>
  A system with one managed cloud, the entity 1 at the origin: its first slot holds
  the compound 1 with density 10 in every cell, its other three slots are empty.
\<close>

definition cloud1 :: "real CompoundCloudComponent" where
  "cloud1 =
     \<lparr>clouds = (\<lambda>i. if i = 0
                     then (defaultCloudData P3)\<lparr>id_cloud := 1, viscosity := 2, density := (\<lambda>x y. 10)\<rparr>
                     else defaultCloudData P3),
      m_position = origin P3, m_initialized = True,
      m_upperCloud = None, m_lowerCloud = None, m_leftCloud = None, m_rightCloud = None\<rparr>"

definition system1 :: "real CompoundCloudSystem" where
  "system1 =
     \<lparr>m_cloudTypes = [\<lparr>id_compound = 1, viscosity_compound = 2\<rparr>], m_managedClouds = [1],
      m_cloudGridCenter = origin P3, m_tooFarAwayClouds = [None],
      components = (\<lambda>i. cloud1), nextEntity = 2\<rparr>"

text \<open>
  A system with one compound type and its nine clouds, the entities 1 to 9, at the
  nine required positions around the origin.
\<close>

definition system9 :: "real CompoundCloudSystem" where
  "system9 =
     \<lparr>m_cloudTypes = [\<lparr>id_compound = 1, viscosity_compound = 2\<rparr>],
      m_managedClouds = [1, 2, 3, 4, 5, 6, 7, 8, 9],
      m_cloudGridCenter = origin P3,
      m_tooFarAwayClouds = replicate 9 None,
      components = (\<lambda>i. cloud1\<lparr>m_position := snd (calculateGridPositions P3 (origin P3) ! (i - 1))\<rparr>),
      nextEntity = 10\<rparr>"

subsection \<open>The cells of a grid in the order of the loops\<close>

definition cellList :: "nat \<Rightarrow> nat \<Rightarrow> (nat \<times> nat) list" where
  "cellList w h = concat (map (\<lambda>x. map (\<lambda>y. (x, y)) [0..<h]) [0..<w])"

text \<open>
  What a pass of the solver leaves alone in a cloud: its position, its
  initialisation flag, its four neighbour references and the compound of each slot.
\<close>

definition sameFrame :: "'f CompoundCloudComponent \<Rightarrow> 'f CompoundCloudComponent \<Rightarrow> bool" where
  "sameFrame c c' \<longleftrightarrow>
     m_position c' = m_position c \<and> m_initialized c' = m_initialized c \<and>
     m_upperCloud c' = m_upperCloud c \<and> m_lowerCloud c' = m_lowerCloud c \<and>
     m_leftCloud c' = m_leftCloud c \<and> m_rightCloud c' = m_rightCloud c \<and>
     (\<forall>i. id_cloud (clouds c' i) = id_cloud (clouds c i)) \<and>
     (\<forall>i. viscosity (clouds c' i) = viscosity (clouds c i))"

text \<open>
  The value of the spec's diffusion formula \<^verbatim>\<open>old[x][y]*(1-a) + (up+down+left+right)*a/4\<close>
  for a cell, read from the history buffers as they are before the pass: the four
  neighbours are the adjacent cells of the history grid, at an edge the edge cell of
  the neighbouring cloud's history grid, and zero without a neighbour.
\<close>

definition diffuseClaimed :: "'f params \<Rightarrow> 'f \<Rightarrow> 'f heap \<Rightarrow> ObjectID \<Rightarrow> nat \<Rightarrow> int \<Rightarrow> nat \<Rightarrow> nat \<Rightarrow> 'f" where
  "diffuseClaimed P diffRate h c slot dt x y =
     (let a = fmul P (fint P dt) diffRate;
          old = oldDensity (clouds (h c) slot);
          up = (if y > 0 then old x (y - 1)
                else (case m_upperCloud (h c) of
                        Some u \<Rightarrow> oldDensity (clouds (h u) slot) x (CLOUD_SIMULATION_HEIGHT P - 1)
                      | None \<Rightarrow> fint P 0));
          down = (if y + 1 < CLOUD_SIMULATION_HEIGHT P then old x (y + 1)
                  else (case m_lowerCloud (h c) of
                          Some l \<Rightarrow> oldDensity (clouds (h l) slot) x 0
                        | None \<Rightarrow> fint P 0));
          left = (if x > 0 then old (x - 1) y
                  else (case m_leftCloud (h c) of
                          Some l \<Rightarrow> oldDensity (clouds (h l) slot) (CLOUD_SIMULATION_WIDTH P - 1) y
                        | None \<Rightarrow> fint P 0));
          right = (if x + 1 < CLOUD_SIMULATION_WIDTH P then old (x + 1) y
                   else (case m_rightCloud (h c) of
                           Some r \<Rightarrow> oldDensity (clouds (h r) slot) 0 y
                         | None \<Rightarrow> fint P 0))
      in fadd P (fmul P (old x y) (fsub P (fint P 1) a))
           (fdiv P (fmul P (fadd P (fadd P (fadd P up down) left) right) a) (fint P 4)))"

section \<open>Properties\<close>

subsection \<open>Neighbour links\<close>

text \<open>
  C2. \<open>setUpCloudLinks\<close> on the full 3 by 3 window of one group: the centre cloud
  \<open>(0, 0)\<close> (entity 5) gets as its left neighbour the cloud at \<open>(0, -1)\<close> (entity 4,
  which is also its upper neighbour) and not the cloud at \<open>(-1, 0)\<close> (entity 2), and
  as its right neighbour the cloud at \<open>(0, 1)\<close> (entity 6) and not the cloud at
  \<open>(1, 0)\<close> (entity 8); the cloud at \<open>(0, -1)\<close>, which is not on the left edge, gets no
  left neighbour, and the cloud at \<open>(-1, 0)\<close> on the left edge gets the cloud at
  \<open>(-1, 1)\<close> (entity 3) as its right neighbour.
\<close>

theorem setUpCloudLinks_left_right_follow_Y:
  "m_upperCloud (setUpCloudLinks grid3 h 5) = Some 4 \<and>
   m_lowerCloud (setUpCloudLinks grid3 h 5) = Some 6 \<and>
   m_leftCloud (setUpCloudLinks grid3 h 5) = Some 4 \<and>
   m_rightCloud (setUpCloudLinks grid3 h 5) = Some 6 \<and>
   map_of grid3 (Int2 (-1) 0, 7) = Some 2 \<and>
   map_of grid3 (Int2 1 0, 7) = Some 8 \<and>
   map_of grid3 (Int2 0 (-1), 7) = Some 4 \<and>
   m_leftCloud (setUpCloudLinks grid3 h 4) = None \<and>
   m_rightCloud (setUpCloudLinks grid3 h 2) = Some 3"
  by (simp add: setUpCloudLinks_def grid3_def addInt2_def)

subsection \<open>Slots and queries\<close>

lemma getSlotForCompound_Inr:
  "getSlotForCompound c compound = Inr slot \<Longrightarrow>
     id_cloud (clouds c slot) = compound \<and> slot < CLOUDS_IN_ONE"
  by (auto simp: getSlotForCompound_def find_Some_iff split: option.splits)

lemma handlesCompound_slot:
  "handlesCompound c compound \<Longrightarrow> \<exists>slot. getSlotForCompound c compound = Inr slot"
  by (auto simp: handlesCompound_def getSlotForCompound_def list_ex_iff find_None_iff
           split: option.splits)

lemma setDensity_density [simp]:
  "density (clouds (setDensity c slot x y v) slot) x y = v"
  by (simp add: setDensity_def gridSet_def)

lemma setDensity_id_cloud [simp]:
  "id_cloud (clouds (setDensity c slot x y v) i) = id_cloud (clouds c i)"
  by (simp add: setDensity_def)

lemma setDensity_overwrite [simp]:
  "setDensity (setDensity c slot x y v) slot x y v' = setDensity c slot x y v'"
  by (simp add: setDensity_def gridSet_def)

lemma addCloud_loop_find:
  "addCloud_loop P compound dens w cs s =
     (case find (\<lambda>cloud. cloudContainsPosition P (m_position (components s cloud)) w \<and>
                         handlesCompound (components s cloud) compound) cs of
        None \<Rightarrow> Inr (False, s)
      | Some cloud \<Rightarrow>
          (case convertWorldToCloudLocal P (m_position (components s cloud)) w of
             Inl e \<Rightarrow> Inr (False, s)
           | Inr (x, y) \<Rightarrow>
               (case component_addCloud P (components s cloud) compound dens x y of
                  Inl e \<Rightarrow> Inl e
                | Inr c \<Rightarrow> Inr (True, s\<lparr>components := (components s)(cloud := c)\<rparr>))))"
  by (induction cs) (simp_all add: Let_def)

lemma takeCompound_loop_find:
  "takeCompound_loop P compound w rate cs s =
     (case find (\<lambda>cloud. cloudContainsPosition P (m_position (components s cloud)) w \<and>
                         handlesCompound (components s cloud) compound) cs of
        None \<Rightarrow> Inr (fint P 0, s)
      | Some cloud \<Rightarrow>
          (case convertWorldToCloudLocal P (m_position (components s cloud)) w of
             Inl e \<Rightarrow> Inr (fint P 0, s)
           | Inr (x, y) \<Rightarrow>
               (case component_takeCompound P (components s cloud) compound x y rate of
                  Inl e \<Rightarrow> Inl e
                | Inr (amount, c) \<Rightarrow>
                    Inr (fint P amount, s\<lparr>components := (components s)(cloud := c)\<rparr>))))"
  by (induction cs) (simp_all add: Let_def)

lemma slots: "[0..<CLOUDS_IN_ONE] = [0, 1, 2, 3]"
  by (simp add: CLOUDS_IN_ONE_def upt_conv_Cons)

lemma system1_contains: "cloudContainsPosition P3 (m_position (components system1 1)) (origin P3)"
  by (simp add: cloudContainsPosition_def system1_def cloud1_def origin_def P3_def fge_def)

lemma system1_local: "convertWorldToCloudLocal P3 (m_position (components system1 1)) (origin P3) = Inr (1, 1)"
  by (simp add: convertWorldToCloudLocal_def system1_def cloud1_def origin_def P3_def Let_def)

lemma system1_handles: "handlesCompound (components system1 1) 1" "handlesCompound (components system1 1) 0"
  by (simp_all add: handlesCompound_def system1_def cloud1_def slots defaultCloudData_def P3_def)

lemma system1_slot: "getSlotForCompound (components system1 1) 1 = Inr 0"
   "getSlotForCompound (components system1 1) (NULL_COMPOUND P3) = Inr 1"
  by (simp_all add: getSlotForCompound_def system1_def cloud1_def slots defaultCloudData_def P3_def)

text \<open>
  C9. \<open>getSlotForCompound\<close> and \<open>handlesCompound\<close> compare the requested id with
  the id of every slot, the empty ones included. So \<open>addCloud\<close> with the sentinel
  \<open>NULL_COMPOUND\<close> as the compound finds an empty slot in the first cloud that
  contains the position and has one, and adds the density to the cell of that slot.
\<close>

theorem addCloud_deposits_into_empty_slot:
  assumes "find (\<lambda>cloud. cloudContainsPosition P (m_position (components s cloud)) w \<and>
                         handlesCompound (components s cloud) (NULL_COMPOUND P)) (m_managedClouds s)
           = Some cloud"
    and "convertWorldToCloudLocal P (m_position (components s cloud)) w = Inr (x, y)"
  shows "\<exists>slot. getSlotForCompound (components s cloud) (NULL_COMPOUND P) = Inr slot \<and>
           id_cloud (clouds (components s cloud) slot) = NULL_COMPOUND P \<and>
           addCloud P s (NULL_COMPOUND P) dens w =
             Inr (True, s\<lparr>components := (components s)
                     (cloud := setDensity (components s cloud) slot x y
                                 (fadd P (density (clouds (components s cloud) slot) x y) dens))\<rparr>)"
proof -
  from assms(1) have "handlesCompound (components s cloud) (NULL_COMPOUND P)"
    by (auto simp: find_Some_iff)
  then obtain slot where slot: "getSlotForCompound (components s cloud) (NULL_COMPOUND P) = Inr slot"
    using handlesCompound_slot by blast
  then have "id_cloud (clouds (components s cloud) slot) = NULL_COMPOUND P"
    by (simp add: getSlotForCompound_Inr)
  moreover have "addCloud P s (NULL_COMPOUND P) dens w =
             Inr (True, s\<lparr>components := (components s)
                     (cloud := setDensity (components s cloud) slot x y
                                 (fadd P (density (clouds (components s cloud) slot) x y) dens))\<rparr>)"
    using assms slot by (simp add: addCloud_def addCloud_loop_find component_addCloud_def)
  ultimately show ?thesis using slot by blast
qed

theorem addCloud_deposits_into_empty_slot_witness:
  "id_cloud (clouds (components system1 1) 1) = NULL_COMPOUND P3 \<and>
   density (clouds (components system1 1) 1) 1 1 = 0 \<and>
   (case addCloud P3 system1 (NULL_COMPOUND P3) 5 (origin P3) of
      Inl e \<Rightarrow> False
    | Inr (added, s') \<Rightarrow>
        added \<and> id_cloud (clouds (components s' 1) 1) = NULL_COMPOUND P3 \<and>
        density (clouds (components s' 1) 1) 1 1 = 5)"
proof -
  have f: "find (\<lambda>cloud. cloudContainsPosition P3 (m_position (components system1 cloud)) (origin P3) \<and>
                         handlesCompound (components system1 cloud) (NULL_COMPOUND P3)) (m_managedClouds system1)
           = Some 1"
    using system1_contains system1_handles(2) by (simp add: system1_def P3_def)
  from addCloud_deposits_into_empty_slot [OF f system1_local, of 5]
  obtain slot where s: "getSlotForCompound (components system1 1) (NULL_COMPOUND P3) = Inr slot"
    and a: "addCloud P3 system1 (NULL_COMPOUND P3) 5 (origin P3) =
             Inr (True, system1\<lparr>components := (components system1)
                     (1 := setDensity (components system1 1) slot 1 1
                                 (fadd P3 (density (clouds (components system1 1) slot) 1 1) 5))\<rparr>)"
    by blast
  from s system1_slot(2) have [simp]: "slot = 1" by simp
  have d: "density (clouds (components system1 1) 1) 1 1 = 0"
     "id_cloud (clouds (components system1 1) 1) = NULL_COMPOUND P3"
    by (simp_all add: system1_def cloud1_def defaultCloudData_def P3_def)
  show ?thesis
    using d by (simp add: a) (simp add: P3_def)
qed

text \<open>
  C4. \<open>takeCompound\<close> returns the sentinel result 0 and leaves the system as it is
  when no managed cloud contains the position and handles the compound, or when the
  conversion to local coordinates throws. Otherwise, for the first such cloud, the slot
  of the compound and the cell of the position, it returns the density times the rate
  converted by \<^verbatim>\<open>static_cast<int>\<close> (which truncates toward zero), subtracts that
  amount, and writes zero to the cell when the residual compares below 1: the cell
  then holds zero or a value that does not compare below 1.
\<close>

theorem takeCompound_truncates_and_snaps:
  "case find (\<lambda>cloud. cloudContainsPosition P (m_position (components s cloud)) w \<and>
                       handlesCompound (components s cloud) compound) (m_managedClouds s) of
     None \<Rightarrow> takeCompound P s compound w rate = Inr (fint P 0, s)
   | Some cloud \<Rightarrow>
       (case convertWorldToCloudLocal P (m_position (components s cloud)) w of
          Inl e \<Rightarrow> takeCompound P s compound w rate = Inr (fint P 0, s)
        | Inr (x, y) \<Rightarrow>
            (\<exists>slot. getSlotForCompound (components s cloud) compound = Inr slot \<and>
               (let d = density (clouds (components s cloud) slot) x y;
                    amountToGive = to_int P (fmul P d rate);
                    residual = fsub P d (fint P amountToGive);
                    d' = (if flt P residual (fint P 1) then fint P 0 else residual)
                in takeCompound P s compound w rate =
                     Inr (fint P amountToGive,
                          s\<lparr>components := (components s)
                               (cloud := setDensity (components s cloud) slot x y d')\<rparr>) \<and>
                   (d' = fint P 0 \<or> \<not> flt P d' (fint P 1)))))"
proof (cases "find (\<lambda>cloud. cloudContainsPosition P (m_position (components s cloud)) w \<and>
                       handlesCompound (components s cloud) compound) (m_managedClouds s)")
  case None
  then show ?thesis by (simp add: takeCompound_def takeCompound_loop_find)
next
  case (Some cloud)
  then have "handlesCompound (components s cloud) compound"
    by (auto simp: find_Some_iff)
  then obtain slot where slot: "getSlotForCompound (components s cloud) compound = Inr slot"
    using handlesCompound_slot by blast
  show ?thesis
    using Some slot
    by (auto simp: takeCompound_def takeCompound_loop_find component_takeCompound_def Let_def
             split: sum.splits)
qed

theorem takeCompound_truncates_and_snaps_witness:
  "takeCompound P3 system1 1 (origin P3) (1 / 4) =
     Inr (2, system1\<lparr>components := (components system1)(1 := setDensity (components system1 1) 0 1 1 8)\<rparr>)"
proof -
  have f: "find (\<lambda>cloud. cloudContainsPosition P3 (m_position (components system1 cloud)) (origin P3) \<and>
                         handlesCompound (components system1 cloud) 1) (m_managedClouds system1)
           = Some 1"
    using system1_contains system1_handles(1) by (simp add: system1_def)
  have d: "density (clouds (components system1 1) 0) 1 1 = 10"
    by (simp add: system1_def cloud1_def)
  have "to_int P3 (fmul P3 10 (1 / 4)) = 2" "fint P3 2 = 2" "fint P3 1 = 1" "fsub P3 10 2 = 8"
    "\<not> flt P3 8 1"
    by (simp_all add: P3_def)
  with takeCompound_truncates_and_snaps [where P = P3 and s = system1 and w = "origin P3" and compound = 1 and rate = "1 / 4"] f system1_local system1_slot(1) d
  show ?thesis
    by (simp add: Let_def)
qed

text \<open>
  The amount is not the floor for a negative product: a cell with density 10 and the
  rate \<open>-1/4\<close> give \<open>-2.5\<close>, the source returns \<open>-2\<close> and adds 2 to the cell, and
  the floor is \<open>-3\<close>.
\<close>

theorem takeCompound_not_floor_counterexample:
  "density (clouds (components system1 1) 0) 1 1 = 10 \<and>
   \<lfloor>(10::real) * (- 1 / 4)\<rfloor> = - 3 \<and>
   (case takeCompound P3 system1 1 (origin P3) (- 1 / 4) of
      Inl e \<Rightarrow> False
    | Inr (amount, s') \<Rightarrow> amount = - 2 \<and> density (clouds (components s' 1) 0) 1 1 = 12)"
proof -
  have f: "find (\<lambda>cloud. cloudContainsPosition P3 (m_position (components system1 cloud)) (origin P3) \<and>
                         handlesCompound (components system1 cloud) 1) (m_managedClouds system1)
           = Some 1"
    using system1_contains system1_handles(1) by (simp add: system1_def)
  have d: "density (clouds (components system1 1) 0) 1 1 = 10"
    by (simp add: system1_def cloud1_def)
  have fl: "\<lfloor>(10::real) * (- 1 / 4)\<rfloor> = - 3" by (simp add: floor_eq_iff)
  have c: "to_int P3 (fmul P3 10 (- 1 / 4)) = - 2"
    by (simp add: P3_def ceiling_eq_iff)
  have "takeCompound P3 system1 1 (origin P3) (- 1 / 4) =
     Inr (- 2, system1\<lparr>components := (components system1)(1 := setDensity (components system1 1) 0 1 1 12)\<rparr>)"
    using f system1_local system1_slot(1) d c
    by (simp add: takeCompound_def takeCompound_loop_find component_takeCompound_def Let_def)
       (simp add: P3_def)
  with d fl show ?thesis by simp
qed

subsection \<open>Loops over the cells\<close>

lemma fold_concat_map:
  "fold f (concat (map g xs)) s = fold (\<lambda>x. fold f (g x)) xs s"
  by (induction xs arbitrary: s) simp_all

lemma forCells_cellList:
  "forCells w h body s = fold (\<lambda>(x, y). body x y) (cellList w h) s"
  by (simp add: forCells_def cellList_def fold_concat_map fold_map comp_def)

lemma set_cellList: "(x, y) \<in> set (cellList w h) \<longleftrightarrow> x < w \<and> y < h"
  by (auto simp: cellList_def image_iff)

lemma fold_invariant:
  assumes "\<And>a s. I s \<Longrightarrow> I (f a s)" and "I s"
  shows "I (fold f xs s)"
  using assms(2) by (induction xs arbitrary: s) (simp_all add: assms(1))


subsection \<open>Advection\<close>

lemma setDensity_oldDensity [simp]:
  "oldDensity (clouds (setDensity c slot x y v) i) = oldDensity (clouds c i)"
  by (simp add: setDensity_def)

lemma setDensity_other_cell:
  "(x', y') \<noteq> (x, y) \<Longrightarrow>
     density (clouds (setDensity c slot x y v) slot) x' y' = density (clouds c slot) x' y'"
  by (auto simp: setDensity_def gridSet_def)

lemma addCloudDensity_cases:
  "addCloudDensity P h c slot x y v = h \<or>
   (\<exists>yc x' y'. addCloudDensity P h c slot x y v =
       h(yc := setDensity (h yc) slot x' y' (fadd P (density (clouds (h yc) slot) x' y') v)))"
  by (cases "x < 0"; cases "int (CLOUD_SIMULATION_WIDTH P) \<le> x";
      cases "y < 0"; cases "int (CLOUD_SIMULATION_HEIGHT P) \<le> y";
      simp add: addCloudDensity_def split: option.splits; blast)

lemma addCloudDensity_oldDensity [simp]:
  "oldDensity (clouds (addCloudDensity P h c slot x y v t) i) = oldDensity (clouds (h t) i)"
  using addCloudDensity_cases [of P h c slot x y v] by auto

lemma advectCell_oldDensity [simp]:
  "oldDensity (clouds (advectCell P v c slot dt pos x y h t) i) = oldDensity (clouds (h t) i)"
  by (simp add: advectCell_def Let_def)




lemma clear_fold_oldDensity:
  "oldDensity (clouds (fold (\<lambda>(x, y) h. h(c := setDensity (h c) slot x y z)) cs h t) i) =
     oldDensity (clouds (h t) i)"
proof (induction cs arbitrary: h)
  case Nil
  then show ?case by simp
next
  case (Cons a cs)
  obtain ax ay where a: "a = (ax, ay)" by (cases a)
  have "oldDensity (clouds (fold (\<lambda>(x, y) h. h(c := setDensity (h c) slot x y z)) (a # cs) h t) i) =
        oldDensity (clouds (fold (\<lambda>(x, y) h. h(c := setDensity (h c) slot x y z)) cs
                           (h(c := setDensity (h c) slot ax ay z)) t) i)"
    by (simp add: a)
  also have "\<dots> = oldDensity (clouds ((h(c := setDensity (h c) slot ax ay z)) t) i)"
    by (rule Cons.IH)
  also have "\<dots> = oldDensity (clouds (h t) i)"
    by simp
  finally show ?case .
qed


lemma advectClear_oldDensity [simp]:
  "oldDensity (clouds (advectClear P h c slot t) i) = oldDensity (clouds (h t) i)"
  by (simp add: advectClear_def forCells_cellList clear_fold_oldDensity)





subsection \<open>What the solver leaves alone\<close>

lemma sameFrame_refl [simp]: "sameFrame c c"
  by (simp add: sameFrame_def)

lemma sameFrame_trans: "sameFrame a b \<Longrightarrow> sameFrame b c \<Longrightarrow> sameFrame a c"
  by (simp add: sameFrame_def)

lemma sameFrame_setDensity [simp]: "sameFrame c (setDensity c slot x y v)"
  by (simp add: sameFrame_def setDensity_def)

lemma sameFrame_setOldDensity [simp]: "sameFrame c (setOldDensity c slot x y v)"
  by (simp add: sameFrame_def setOldDensity_def)

lemma sameFrame_setDensity_after: "sameFrame a b \<Longrightarrow> sameFrame a (setDensity b slot x y v)"
  by (simp add: sameFrame_def setDensity_def)

lemma sameFrame_setOldDensity_after: "sameFrame a b \<Longrightarrow> sameFrame a (setOldDensity b slot x y v)"
  by (simp add: sameFrame_def setOldDensity_def)

lemma forCells_invariant:
  assumes "\<And>x y s. I s \<Longrightarrow> I (body x y s)" and "I s"
  shows "I (forCells w h body s)"
  unfolding forCells_cellList
  by (rule fold_invariant) (auto simp: assms)

lemma addCloudDensity_frame:
  "(\<forall>t. sameFrame (h0 t) (h t)) \<Longrightarrow> (\<forall>t. sameFrame (h0 t) (addCloudDensity P h c slot x y v t))"
  using addCloudDensity_cases [of P h c slot x y v]
  by (auto simp: sameFrame_setDensity_after)

lemma advectCell_frame:
  "(\<forall>t. sameFrame (h0 t) (h t)) \<Longrightarrow> (\<forall>t. sameFrame (h0 t) (advectCell P v c slot dt pos x y h t))"
  unfolding advectCell_def Let_def
  by (auto intro!: addCloudDensity_frame [rule_format])

lemma advectClear_frame:
  "(\<forall>t. sameFrame (h0 t) (h t)) \<Longrightarrow> (\<forall>t. sameFrame (h0 t) (advectClear P h c slot t))"
  unfolding advectClear_def
  by (rule forCells_invariant [where I = "\<lambda>h. \<forall>t. sameFrame (h0 t) (h t)"])
     (auto intro: sameFrame_setDensity_after)

lemma advect_frame:
  "(\<forall>t. sameFrame (h0 t) (h t)) \<Longrightarrow> (\<forall>t. sameFrame (h0 t) (advect P v h c slot dt pos t))"
  unfolding advect_def
  by (rule forCells_invariant [where I = "\<lambda>h. \<forall>t. sameFrame (h0 t) (h t)"])
     (auto intro: advectCell_frame [rule_format] advectClear_frame [rule_format])

lemma diffuse_frame:
  "(\<forall>t. sameFrame (h0 t) (h t)) \<Longrightarrow> (\<forall>t. sameFrame (h0 t) (diffuse P r h c slot dt t))"
  unfolding diffuse_def Let_def
  by (rule forCells_invariant [where I = "\<lambda>h. \<forall>t. sameFrame (h0 t) (h t)"])
     (auto simp: diffuseCell_def Let_def intro: sameFrame_setOldDensity_after)

lemma processCloud_frame:
  "(\<forall>t. sameFrame (h0 t) (h t)) \<Longrightarrow> (\<forall>t. sameFrame (h0 t) (processCloud P v h c rt t))"
  unfolding processCloud_def Let_def
  by (rule fold_invariant [where I = "\<lambda>h. \<forall>t. sameFrame (h0 t) (h t)"])
     (auto intro: advect_frame [rule_format] diffuse_frame [rule_format])

lemma processClouds_frame:
  "processClouds P v cs h = Inr h' \<Longrightarrow> (\<forall>t. sameFrame (h0 t) (h t)) \<Longrightarrow> (\<forall>t. sameFrame (h0 t) (h' t))"
proof (induction cs arbitrary: h)
  case Nil
  then show ?case by simp
next
  case (Cons c cs)
  from Cons.prems(1) have "processClouds P v cs (processCloud P v h c (TICKSPEED P)) = Inr h'"
    by (simp split: if_splits)
  moreover have "\<forall>t. sameFrame (h0 t) (processCloud P v h c (TICKSPEED P) t)"
    using Cons.prems(2) by (rule processCloud_frame)
  ultimately show ?case by (rule Cons.IH)
qed

lemma processClouds_initialized:
  "processClouds P v cs h = Inr h' \<Longrightarrow> \<forall>c \<in> set cs. m_initialized (h c)"
proof (induction cs arbitrary: h)
  case Nil
  then show ?case by simp
next
  case (Cons c cs)
  from Cons.prems have i: "m_initialized (h c)"
    and r: "processClouds P v cs (processCloud P v h c (TICKSPEED P)) = Inr h'"
    by (simp_all split: if_splits)
  have "\<forall>t. sameFrame (h t) (processCloud P v h c (TICKSPEED P) t)"
    by (rule processCloud_frame) simp
  then have "\<forall>t. m_initialized (processCloud P v h c (TICKSPEED P) t) = m_initialized (h t)"
    by (simp add: sameFrame_def)
  with Cons.IH [OF r] i show ?case by simp
qed

lemma processClouds_total:
  "\<forall>c \<in> set cs. m_initialized (h c) \<Longrightarrow> \<exists>h'. processClouds P v cs h = Inr h'"
proof (induction cs arbitrary: h)
  case Nil
  then show ?case by simp
next
  case (Cons c cs)
  have "\<forall>t. sameFrame (h t) (processCloud P v h c (TICKSPEED P) t)"
    by (rule processCloud_frame) simp
  then have "\<forall>t. m_initialized (processCloud P v h c (TICKSPEED P) t) = m_initialized (h t)"
    by (simp add: sameFrame_def)
  with Cons.prems have "\<forall>k \<in> set cs. m_initialized (processCloud P v h c (TICKSPEED P) k)"
    by simp
  from Cons.IH [OF this] Cons.prems show ?case by simp
qed

subsection \<open>Recentering\<close>

lemma applyNewCloudPositioning_fields:
  assumes "applyNewCloudPositioning P s = Inr s'"
  shows "m_managedClouds s' = m_managedClouds s \<and> m_cloudTypes s' = m_cloudTypes s \<and>
         m_cloudGridCenter s' = m_cloudGridCenter s \<and> nextEntity s' = nextEntity s"
proof -
  from assms obtain far h where "s' = s\<lparr>m_tooFarAwayClouds := far, components := h\<rparr>"
    unfolding applyNewCloudPositioning_def Let_def
    by (auto split: sum.splits prod.splits if_splits)
  then show ?thesis by simp
qed

lemma spawnCloud_fields:
  "spawnCloud P s pos i = Inr s' \<Longrightarrow>
     m_cloudTypes s' = m_cloudTypes s \<and> m_cloudGridCenter s' = m_cloudGridCenter s"
  by (auto simp: spawnCloud_def Let_def split: sum.splits)

lemma spawnPositions_fields:
  "spawnPositions P i ps s = Inr s' \<Longrightarrow>
     m_cloudTypes s' = m_cloudTypes s \<and> m_cloudGridCenter s' = m_cloudGridCenter s"
proof (induction ps arbitrary: s)
  case Nil
  then show ?case by simp
next
  case (Cons p ps)
  from Cons.prems obtain s1 where a: "spawnCloud P s (snd p) i = Inr s1"
    and b: "spawnPositions P i ps s1 = Inr s'"
    by (auto split: sum.splits)
  from Cons.IH [OF b] spawnCloud_fields [OF a] show ?case by simp
qed

lemma spawnGroups_fields:
  "spawnGroups P req gs s = Inr s' \<Longrightarrow>
     m_cloudTypes s' = m_cloudTypes s \<and> m_cloudGridCenter s' = m_cloudGridCenter s"
proof (induction gs arbitrary: s)
  case Nil
  then show ?case by simp
next
  case (Cons g gs)
  from Cons.prems obtain s1 where a: "spawnPositions P g req s = Inr s1"
    and b: "spawnGroups P req gs s1 = Inr s'"
    by (auto split: sum.splits)
  from Cons.IH [OF b] spawnPositions_fields [OF a] show ?case by simp
qed

lemma expectedCloudCount_eq: "expectedCloudCount n = ((n + 3) div 4) * 9"
  by (simp add: expectedCloudCount_def)

lemma expectedCloudCount_zero: "expectedCloudCount n = 0 \<longleftrightarrow> n = 0"
  by (simp add: expectedCloudCount_eq) arith

lemma doSpawnCycle_noop:
  assumes "m_managedClouds s \<noteq> []"
    and "length (m_managedClouds s) = expectedCloudCount (length (m_cloudTypes s))"
    and "\<not> ne3 P (m_cloudGridCenter s) (calculateGridCenterForPlayerPos P p)"
  shows "doSpawnCycle P s p = Inr s"
  using assms by (simp add: doSpawnCycle_def Let_def)

lemma applyNewCloudPositioning_no_clouds:
  assumes "m_managedClouds s = []" and "m_cloudTypes s = []"
  shows "applyNewCloudPositioning P s = Inr (s\<lparr>m_tooFarAwayClouds := []\<rparr>)"
  using assms
  by (simp add: applyNewCloudPositioning_def Let_def groupStarts_def resize_def setUpCloudLinks_def)

lemma doSpawnCycle_no_clouds:
  assumes "m_managedClouds s = []" and "m_cloudTypes s = []"
  shows "doSpawnCycle P s p =
           Inr (s\<lparr>m_cloudGridCenter :=
                    (if ne3 P (origin P) (calculateGridCenterForPlayerPos P p)
                     then calculateGridCenterForPlayerPos P p else origin P),
                  m_tooFarAwayClouds := []\<rparr>)"
  using assms
  by (simp add: doSpawnCycle_def Let_def groupStarts_def applyNewCloudPositioning_no_clouds
        expectedCloudCount_def)

lemma doSpawnCycle_post:
  assumes "doSpawnCycle P s p = Inr s1"
    and "\<not> ne3 P (calculateGridCenterForPlayerPos P p) (calculateGridCenterForPlayerPos P p)"
  shows "length (m_managedClouds s1) = expectedCloudCount (length (m_cloudTypes s1)) \<and>
         \<not> ne3 P (m_cloudGridCenter s1) (calculateGridCenterForPlayerPos P p) \<and>
         m_cloudTypes s1 = m_cloudTypes s \<and>
         (m_managedClouds s \<noteq> [] \<longrightarrow> m_managedClouds s1 = m_managedClouds s)"
proof -
  let ?t = "calculateGridCenterForPlayerPos P p"
  from assms(1) obtain s2 where
    s2: "(if m_managedClouds s = [] then
              (case spawnGroups P (calculateGridPositions P (origin P))
                      (groupStarts (length (m_cloudTypes s))) (s\<lparr>m_cloudGridCenter := origin P\<rparr>) of
                    Inl e \<Rightarrow> Inl e
                  | Inr s1 \<Rightarrow> applyNewCloudPositioning P s1)
            else Inr s) = Inr s2"
    and len: "length (m_managedClouds s2) = expectedCloudCount (length (m_cloudTypes s2))"
    and fin: "(if ne3 P (m_cloudGridCenter s2) ?t
               then applyNewCloudPositioning P (s2\<lparr>m_cloudGridCenter := ?t\<rparr>) else Inr s2) = Inr s1"
    by (auto simp: doSpawnCycle_def Let_def split: sum.splits if_splits)
  have s2f: "m_cloudTypes s2 = m_cloudTypes s \<and> (m_managedClouds s \<noteq> [] \<longrightarrow> m_managedClouds s2 = m_managedClouds s)"
  proof (cases "m_managedClouds s = []")
    case True
    with s2 obtain sa where a: "spawnGroups P (calculateGridPositions P (origin P))
                      (groupStarts (length (m_cloudTypes s))) (s\<lparr>m_cloudGridCenter := origin P\<rparr>) = Inr sa"
      and b: "applyNewCloudPositioning P sa = Inr s2"
      by (auto split: sum.splits)
    from spawnGroups_fields [OF a] applyNewCloudPositioning_fields [OF b] True
    show ?thesis by simp
  next
    case False
    with s2 show ?thesis by simp
  qed
  show ?thesis
  proof (cases "ne3 P (m_cloudGridCenter s2) ?t")
    case True
    with fin have "applyNewCloudPositioning P (s2\<lparr>m_cloudGridCenter := ?t\<rparr>) = Inr s1" by simp
    from applyNewCloudPositioning_fields [OF this] len s2f assms(2) show ?thesis by simp
  next
    case False
    with fin have "s1 = s2" by simp
    with False len s2f show ?thesis by simp
  qed
qed

lemma snap_P3_origin: "calculateGridCenterForPlayerPos P3 (origin P3) = origin P3"
  by (simp add: calculateGridCenterForPlayerPos_def origin_def P3_def)

lemma snap_P3_near_origin: "calculateGridCenterForPlayerPos P3 (Float3 1 0 1) = origin P3"
proof -
  have "\<lfloor>(1::real) / 6 + 1 / 2\<rfloor> = 0" by (simp add: floor_eq_iff)
  then show ?thesis
    by (simp add: calculateGridCenterForPlayerPos_def origin_def P3_def)
qed

lemma ne3_P3_origin: "\<not> ne3 P3 (origin P3) (origin P3)"
  by (simp add: ne3_def P3_def)

lemma system9_run:
  "\<exists>s1. Run P3 v True system9 (origin P3) = Inr s1"
proof -
  have c: "doSpawnCycle P3 system9 (origin P3) = Inr system9"
    by (rule doSpawnCycle_noop)
       (simp_all add: system9_def expectedCloudCount_def snap_P3_origin ne3_P3_origin)
  have "\<forall>c \<in> set (m_managedClouds system9). m_initialized (components system9 c)"
    by (simp add: system9_def cloud1_def)
  from processClouds_total [OF this] obtain h where
    "processClouds P3 v (m_managedClouds system9) (components system9) = Inr h"
    by blast
  with c show ?thesis by (simp add: Run_def)
qed

text \<open>
  C8. A tick (\<open>Run\<close> with authority) at the observer position \<open>p1\<close> followed by a
  tick at a position \<open>p2\<close> with the same snapped grid centre: the recentering step of
  the second tick, \<open>doSpawnCycle\<close>, returns the system exactly as it is (positions,
  densities, links and the far-away scratch vector), so nothing is recomputed, marked
  stray or recycled; the second tick runs to its end and leaves the position, the
  links and the compounds of every cloud, the managed clouds and the grid centre as
  they are. The snapped centre is assumed to compare equal to itself, as every
  \<^verbatim>\<open>float\<close> but NaN does.
\<close>

theorem same_center_tick_does_not_relocate:
  assumes "Run P v True s p1 = Inr s1"
    and "calculateGridCenterForPlayerPos P p2 = calculateGridCenterForPlayerPos P p1"
    and "\<not> ne3 P (calculateGridCenterForPlayerPos P p1) (calculateGridCenterForPlayerPos P p1)"
  shows "doSpawnCycle P s1 p2 = Inr s1 \<and>
         (\<exists>s2. Run P v True s1 p2 = Inr s2 \<and>
                m_managedClouds s2 = m_managedClouds s1 \<and>
                m_cloudGridCenter s2 = m_cloudGridCenter s1 \<and>
                (\<forall>t. sameFrame (components s1 t) (components s2 t)))"
proof -
  from assms(1) obtain sa h where a: "doSpawnCycle P s p1 = Inr sa"
    and b: "processClouds P v (m_managedClouds sa) (components sa) = Inr h"
    and s1: "s1 = sa\<lparr>components := h\<rparr>"
    by (auto simp: Run_def split: sum.splits)
  note post = doSpawnCycle_post [OF a assms(3)]
  have cycle: "doSpawnCycle P s1 p2 = Inr s1"
  proof (cases "m_managedClouds sa = []")
    case False
    show ?thesis
      by (rule doSpawnCycle_noop) (use False post assms(2) s1 in simp_all)
  next
    case True
    with post have types: "m_cloudTypes sa = []"
      by (simp add: expectedCloudCount_zero)
    from True post have ms: "m_managedClouds s = []" by auto
    from types post have ts: "m_cloudTypes s = []" by simp
    from True b s1 have "s1 = sa" by simp
    moreover from a have "sa = s\<lparr>m_cloudGridCenter :=
                    (if ne3 P (origin P) (calculateGridCenterForPlayerPos P p1)
                     then calculateGridCenterForPlayerPos P p1 else origin P),
                  m_tooFarAwayClouds := []\<rparr>"
      by (simp add: doSpawnCycle_no_clouds [OF ms ts])
    ultimately show ?thesis
      using ms ts assms(2) by (simp add: doSpawnCycle_no_clouds)
  qed
  from processClouds_initialized [OF b] processClouds_frame [OF b, of "components sa"]
  have "\<forall>c \<in> set (m_managedClouds s1). m_initialized (components s1 c)"
    by (simp add: s1 sameFrame_def)
  from processClouds_total [OF this] obtain h2 where
    h2: "processClouds P v (m_managedClouds s1) (components s1) = Inr h2"
    by blast
  from processClouds_frame [OF h2, of "components s1"]
  have fr: "\<forall>t. sameFrame (components s1 t) (h2 t)" by simp
  have "Run P v True s1 p2 = Inr (s1\<lparr>components := h2\<rparr>)"
    by (simp add: Run_def cycle h2)
  with cycle fr show ?thesis by simp
qed

theorem same_center_tick_does_not_relocate_witness:
  "\<exists>s1. Run P3 (\<lambda>p. Float2 0 0) True system9 (origin P3) = Inr s1 \<and>
         doSpawnCycle P3 s1 (Float3 1 0 1) = Inr s1 \<and>
         (\<exists>s2. Run P3 (\<lambda>p. Float2 0 0) True s1 (Float3 1 0 1) = Inr s2 \<and>
                m_managedClouds s2 = m_managedClouds s1 \<and>
                m_cloudGridCenter s2 = m_cloudGridCenter s1 \<and>
                m_position (components s2 5) = m_position (components s1 5))"
proof -
  obtain s1 where r: "Run P3 (\<lambda>p. Float2 0 0) True system9 (origin P3) = Inr s1"
    using system9_run by blast
  have e: "calculateGridCenterForPlayerPos P3 (Float3 1 0 1) = calculateGridCenterForPlayerPos P3 (origin P3)"
    by (simp add: snap_P3_origin snap_P3_near_origin)
  have n: "\<not> ne3 P3 (calculateGridCenterForPlayerPos P3 (origin P3))
                     (calculateGridCenterForPlayerPos P3 (origin P3))"
    by (simp add: snap_P3_origin ne3_P3_origin)
  from same_center_tick_does_not_relocate [OF r e n] r show ?thesis
    by (auto simp: sameFrame_def)
qed

subsection \<open>Diffusion\<close>

lemma upt_split: "x < w \<Longrightarrow> [0..<w] = [0..<x] @ x # [Suc x..<w]"
  using upt_add_eq_append [of 0 x "w - x"] upt_conv_Cons [of x w] by simp

lemma cellList_split:
  assumes "x < w" and "y < h"
  shows "cellList w h =
           (cellList x h @ map (Pair x) [0..<y]) @ (x, y) #
           (map (Pair x) [Suc y..<h] @ concat (map (\<lambda>x. map (Pair x) [0..<h]) [Suc x..<w]))"
proof -
  have "cellList w h = cellList x h @ map (Pair x) [0..<h] @
          concat (map (\<lambda>x. map (Pair x) [0..<h]) [Suc x..<w])"
    by (simp add: cellList_def upt_split [OF assms(1)])
  also have "map (Pair x) [0..<h] = map (Pair x) [0..<y] @ (x, y) # map (Pair x) [Suc y..<h]"
    by (simp add: upt_split [OF assms(2)])
  finally show ?thesis by simp
qed

lemma diffuseCell_other: "t \<noteq> c \<Longrightarrow> diffuseCell P a c slot x y h t = h t"
  by (simp add: diffuseCell_def Let_def)

lemma diffuseCell_eq:
  "\<exists>v. diffuseCell P a c slot x y h = h(c := setOldDensity (h c) slot x y v)"
  unfolding diffuseCell_def Let_def by blast

lemma setOldDensity_density [simp]:
  "density (clouds (setOldDensity c slot x y v) i) = density (clouds c i)"
  by (simp add: setOldDensity_def)

lemma setOldDensity_links [simp]:
  "m_upperCloud (setOldDensity c slot x y v) = m_upperCloud c"
  "m_lowerCloud (setOldDensity c slot x y v) = m_lowerCloud c"
  "m_leftCloud (setOldDensity c slot x y v) = m_leftCloud c"
  "m_rightCloud (setOldDensity c slot x y v) = m_rightCloud c"
  by (simp_all add: setOldDensity_def)

lemma setOldDensity_other_cell:
  "i \<noteq> slot \<or> (x', y') \<noteq> (x, y) \<Longrightarrow>
     oldDensity (clouds (setOldDensity c slot x y v) i) x' y' = oldDensity (clouds c i) x' y'"
  by (auto simp: setOldDensity_def gridSet_def)

lemma setOldDensity_this_cell [simp]:
  "oldDensity (clouds (setOldDensity c slot x y v) slot) x y = v"
  by (simp add: setOldDensity_def gridSet_def)

lemma diffuseCell_density [simp]:
  "density (clouds (diffuseCell P a c slot x y h t) i) = density (clouds (h t) i)"
  using diffuseCell_eq [of P a c slot x y h] by auto

lemma diffuseCell_links [simp]:
  "m_upperCloud (diffuseCell P a c slot x y h t) = m_upperCloud (h t)"
  "m_lowerCloud (diffuseCell P a c slot x y h t) = m_lowerCloud (h t)"
  "m_leftCloud (diffuseCell P a c slot x y h t) = m_leftCloud (h t)"
  "m_rightCloud (diffuseCell P a c slot x y h t) = m_rightCloud (h t)"
  using diffuseCell_eq [of P a c slot x y h] by auto

lemma diffuseCell_other_cell:
  "i \<noteq> slot \<or> (x', y') \<noteq> (x, y) \<Longrightarrow>
     oldDensity (clouds (diffuseCell P a c slot x y h t) i) x' y' = oldDensity (clouds (h t) i) x' y'"
  using diffuseCell_eq [of P a c slot x y h] by (auto simp: setOldDensity_other_cell)

lemma diffuse_fold_other:
  "t \<noteq> c \<Longrightarrow> fold (\<lambda>(x, y). diffuseCell P a c slot x y) cs h t = h t"
  by (induction cs arbitrary: h) (auto simp: diffuseCell_other)

lemma diffuse_fold_density:
  "density (clouds (fold (\<lambda>(x, y). diffuseCell P a c slot x y) cs h t) i) = density (clouds (h t) i)"
  by (induction cs arbitrary: h) auto

lemma diffuse_fold_links:
  "m_upperCloud (fold (\<lambda>(x, y). diffuseCell P a c slot x y) cs h t) = m_upperCloud (h t)"
  "m_lowerCloud (fold (\<lambda>(x, y). diffuseCell P a c slot x y) cs h t) = m_lowerCloud (h t)"
  "m_leftCloud (fold (\<lambda>(x, y). diffuseCell P a c slot x y) cs h t) = m_leftCloud (h t)"
  "m_rightCloud (fold (\<lambda>(x, y). diffuseCell P a c slot x y) cs h t) = m_rightCloud (h t)"
  by (induction cs arbitrary: h; auto)+

lemma diffuse_fold_other_cell:
  "i \<noteq> slot \<or> (x', y') \<notin> set cs \<Longrightarrow>
     oldDensity (clouds (fold (\<lambda>(x, y). diffuseCell P a c slot x y) cs h t) i) x' y' =
     oldDensity (clouds (h t) i) x' y'"
proof (induction cs arbitrary: h)
  case Nil
  then show ?case by simp
next
  case (Cons p cs)
  obtain px py where p: "p = (px, py)" by (cases p)
  from Cons.prems have a: "i \<noteq> slot \<or> (x', y') \<notin> set cs" and b: "i \<noteq> slot \<or> (x', y') \<noteq> (px, py)"
    by (auto simp: p)
  have "oldDensity (clouds (fold (\<lambda>(x, y). diffuseCell P a c slot x y) (p # cs) h t) i) x' y' =
        oldDensity (clouds (fold (\<lambda>(x, y). diffuseCell P a c slot x y) cs
                             (diffuseCell P a c slot px py h) t) i) x' y'"
    by (simp add: p)
  also have "\<dots> = oldDensity (clouds (diffuseCell P a c slot px py h t) i) x' y'"
    by (rule Cons.IH [OF a])
  also have "\<dots> = oldDensity (clouds (h t) i) x' y'"
    by (rule diffuseCell_other_cell [OF b])
  finally show ?case .
qed

lemma diffuseCell_value:
  "oldDensity (clouds (diffuseCell P a c slot x y h c) slot) x y =
     fadd P (fmul P (density (clouds (h c) slot) x y) (fsub P (fint P 1) a))
       (fdiv P
          (fmul P
             (fadd P
                (fadd P
                   (fadd P
                      (if y > 0 then oldDensity (clouds (h c) slot) x (y - 1)
                       else (case m_upperCloud (h c) of
                               Some u \<Rightarrow> oldDensity (clouds (h u) slot) x (CLOUD_SIMULATION_HEIGHT P - 1)
                             | None \<Rightarrow> fint P 0))
                      (if y + 1 < CLOUD_SIMULATION_HEIGHT P then oldDensity (clouds (h c) slot) x (y + 1)
                       else (case m_lowerCloud (h c) of
                               Some l \<Rightarrow> oldDensity (clouds (h l) slot) x 0
                             | None \<Rightarrow> fint P 0)))
                   (if x > 0 then oldDensity (clouds (h c) slot) (x - 1) y
                    else (case m_leftCloud (h c) of
                            Some l \<Rightarrow> oldDensity (clouds (h l) slot) (CLOUD_SIMULATION_WIDTH P - 1) y
                          | None \<Rightarrow> fint P 0)))
                (if x + 1 < CLOUD_SIMULATION_WIDTH P then oldDensity (clouds (h c) slot) (x + 1) y
                 else (case m_rightCloud (h c) of
                         Some r \<Rightarrow> oldDensity (clouds (h r) slot) 0 y
                       | None \<Rightarrow> fint P 0)))
             a)
          (fint P 4))"
proof -
  have c1: "(int y < int (CLOUD_SIMULATION_HEIGHT P) - 1) = (y + 1 < CLOUD_SIMULATION_HEIGHT P)"
    by arith
  have c2: "(int x < int (CLOUD_SIMULATION_WIDTH P) - 1) = (x + 1 < CLOUD_SIMULATION_WIDTH P)"
    by arith
  show ?thesis
    unfolding diffuseCell_def Let_def c1 c2 by simp
qed

lemma neighbour_old:
  assumes "n \<noteq> Some c"
  shows "(case n of Some u \<Rightarrow> oldDensity (clouds (fold (\<lambda>(x, y). diffuseCell P a c slot x y) cs h u) slot) i j
          | None \<Rightarrow> z) =
         (case n of Some u \<Rightarrow> oldDensity (clouds (h u) slot) i j | None \<Rightarrow> z)"
  using assms by (cases n) (simp_all add: diffuse_fold_other)

lemma diffuse_cell_value:
  assumes x: "x < CLOUD_SIMULATION_WIDTH P" and y: "y < CLOUD_SIMULATION_HEIGHT P"
    and self: "m_upperCloud (h c) \<noteq> Some c" "m_lowerCloud (h c) \<noteq> Some c"
              "m_leftCloud (h c) \<noteq> Some c" "m_rightCloud (h c) \<noteq> Some c"
  shows "oldDensity (clouds (diffuse P r h c slot dt c) slot) x y =
     fadd P (fmul P (density (clouds (h c) slot) x y) (fsub P (fint P 1) (fmul P (fint P dt) r)))
       (fdiv P
          (fmul P
             (fadd P
                (fadd P
                   (fadd P
                      (if y > 0 then oldDensity (clouds (diffuse P r h c slot dt c) slot) x (y - 1)
                       else (case m_upperCloud (h c) of
                               Some u \<Rightarrow> oldDensity (clouds (h u) slot) x (CLOUD_SIMULATION_HEIGHT P - 1)
                             | None \<Rightarrow> fint P 0))
                      (if y + 1 < CLOUD_SIMULATION_HEIGHT P then oldDensity (clouds (h c) slot) x (y + 1)
                       else (case m_lowerCloud (h c) of
                               Some l \<Rightarrow> oldDensity (clouds (h l) slot) x 0
                             | None \<Rightarrow> fint P 0)))
                   (if x > 0 then oldDensity (clouds (diffuse P r h c slot dt c) slot) (x - 1) y
                    else (case m_leftCloud (h c) of
                            Some l \<Rightarrow> oldDensity (clouds (h l) slot) (CLOUD_SIMULATION_WIDTH P - 1) y
                          | None \<Rightarrow> fint P 0)))
                (if x + 1 < CLOUD_SIMULATION_WIDTH P then oldDensity (clouds (h c) slot) (x + 1) y
                 else (case m_rightCloud (h c) of
                         Some r \<Rightarrow> oldDensity (clouds (h r) slot) 0 y
                       | None \<Rightarrow> fint P 0)))
             (fmul P (fint P dt) r))
          (fint P 4))"
proof -
  define W where "W = CLOUD_SIMULATION_WIDTH P"
  define H where "H = CLOUD_SIMULATION_HEIGHT P"
  define a where "a = fmul P (fint P dt) r"
  define pre where "pre = cellList x H @ map (Pair x) [0..<y]"
  define post where "post = map (Pair x) [Suc y..<H] @ concat (map (\<lambda>x. map (Pair x) [0..<H]) [Suc x..<W])"
  define step where "step = (\<lambda>(x, y). diffuseCell P a c slot x y)"
  define h1 where "h1 = fold step pre h"
  define h' where "h' = diffuse P r h c slot dt"
  have cells: "cellList W H = pre @ (x, y) # post"
    unfolding pre_def post_def using x y by (simp add: W_def H_def cellList_split)
  have h': "h' = fold step post (diffuseCell P a c slot x y h1)"
    by (simp add: h'_def diffuse_def Let_def forCells_cellList cells [unfolded W_def H_def]
          h1_def step_def a_def)
  have in_pre: "\<And>i j. (i, j) \<in> set pre \<longleftrightarrow> (i < x \<and> j < H) \<or> (i = x \<and> j < y)"
    by (auto simp: pre_def set_cellList)
  have in_post: "\<And>i j. (i, j) \<in> set post \<longleftrightarrow> (i = x \<and> y < j \<and> j < H) \<or> (x < i \<and> i < W \<and> j < H)"
    by (fastforce simp: post_def)
  have after: "\<And>i j. (i, j) \<notin> set post \<Longrightarrow>
      oldDensity (clouds (h' c) slot) i j = oldDensity (clouds (diffuseCell P a c slot x y h1 c) slot) i j"
    unfolding h' step_def by (rule diffuse_fold_other_cell) simp
  have before: "\<And>i j. (i, j) \<notin> set pre \<Longrightarrow>
      oldDensity (clouds (h1 c) slot) i j = oldDensity (clouds (h c) slot) i j"
    unfolding h1_def step_def by (rule diffuse_fold_other_cell) simp
  have this_cell: "oldDensity (clouds (h' c) slot) x y =
      oldDensity (clouds (diffuseCell P a c slot x y h1 c) slot) x y"
    by (rule after) (simp add: in_post)
  have dens: "density (clouds (h1 c) slot) x y = density (clouds (h c) slot) x y"
    by (simp add: h1_def step_def diffuse_fold_density)
  have links: "m_upperCloud (h1 c) = m_upperCloud (h c)" "m_lowerCloud (h1 c) = m_lowerCloud (h c)"
    "m_leftCloud (h1 c) = m_leftCloud (h c)" "m_rightCloud (h1 c) = m_rightCloud (h c)"
    by (simp_all add: h1_def step_def diffuse_fold_links)
  have up: "0 < y \<Longrightarrow> oldDensity (clouds (h1 c) slot) x (y - 1) = oldDensity (clouds (h' c) slot) x (y - 1)"
  proof -
    assume "0 < y"
    then have "(x, y - 1) \<notin> set post" by (auto simp: in_post)
    then have "oldDensity (clouds (h' c) slot) x (y - 1) =
               oldDensity (clouds (diffuseCell P a c slot x y h1 c) slot) x (y - 1)"
      by (rule after)
    also have "\<dots> = oldDensity (clouds (h1 c) slot) x (y - 1)"
      using \<open>0 < y\<close> by (intro diffuseCell_other_cell) simp
    finally show ?thesis by simp
  qed
  have left: "0 < x \<Longrightarrow> oldDensity (clouds (h1 c) slot) (x - 1) y = oldDensity (clouds (h' c) slot) (x - 1) y"
  proof -
    assume "0 < x"
    then have "(x - 1, y) \<notin> set post" by (auto simp: in_post)
    then have "oldDensity (clouds (h' c) slot) (x - 1) y =
               oldDensity (clouds (diffuseCell P a c slot x y h1 c) slot) (x - 1) y"
      by (rule after)
    also have "\<dots> = oldDensity (clouds (h1 c) slot) (x - 1) y"
      using \<open>0 < x\<close> by (intro diffuseCell_other_cell) simp
    finally show ?thesis by simp
  qed
  have low: "oldDensity (clouds (h1 c) slot) x (y + 1) = oldDensity (clouds (h c) slot) x (y + 1)"
    by (rule before) (simp add: in_pre)
  have right: "oldDensity (clouds (h1 c) slot) (x + 1) y = oldDensity (clouds (h c) slot) (x + 1) y"
    by (rule before) (simp add: in_pre)
  have nb: "\<And>n i j z. n \<noteq> Some c \<Longrightarrow>
      (case n of Some u \<Rightarrow> oldDensity (clouds (h1 u) slot) i j | None \<Rightarrow> z) =
      (case n of Some u \<Rightarrow> oldDensity (clouds (h u) slot) i j | None \<Rightarrow> z)"
    unfolding h1_def step_def by (rule neighbour_old)
  have U: "(if y > 0 then oldDensity (clouds (h1 c) slot) x (y - 1)
            else (case m_upperCloud (h1 c) of
                    Some u \<Rightarrow> oldDensity (clouds (h1 u) slot) x (CLOUD_SIMULATION_HEIGHT P - 1)
                  | None \<Rightarrow> fint P 0)) =
           (if y > 0 then oldDensity (clouds (h' c) slot) x (y - 1)
            else (case m_upperCloud (h c) of
                    Some u \<Rightarrow> oldDensity (clouds (h u) slot) x (CLOUD_SIMULATION_HEIGHT P - 1)
                  | None \<Rightarrow> fint P 0))"
    using up nb [OF self(1)] by (simp add: links)
  have Lo: "(if y + 1 < CLOUD_SIMULATION_HEIGHT P then oldDensity (clouds (h1 c) slot) x (y + 1)
             else (case m_lowerCloud (h1 c) of
                     Some l \<Rightarrow> oldDensity (clouds (h1 l) slot) x 0
                   | None \<Rightarrow> fint P 0)) =
            (if y + 1 < CLOUD_SIMULATION_HEIGHT P then oldDensity (clouds (h c) slot) x (y + 1)
             else (case m_lowerCloud (h c) of
                     Some l \<Rightarrow> oldDensity (clouds (h l) slot) x 0
                   | None \<Rightarrow> fint P 0))"
    using low nb [OF self(2)] by (simp add: links)
  have Le: "(if x > 0 then oldDensity (clouds (h1 c) slot) (x - 1) y
             else (case m_leftCloud (h1 c) of
                     Some l \<Rightarrow> oldDensity (clouds (h1 l) slot) (CLOUD_SIMULATION_WIDTH P - 1) y
                   | None \<Rightarrow> fint P 0)) =
            (if x > 0 then oldDensity (clouds (h' c) slot) (x - 1) y
             else (case m_leftCloud (h c) of
                     Some l \<Rightarrow> oldDensity (clouds (h l) slot) (CLOUD_SIMULATION_WIDTH P - 1) y
                   | None \<Rightarrow> fint P 0))"
    using left nb [OF self(3)] by (simp add: links)
  have Ri: "(if x + 1 < CLOUD_SIMULATION_WIDTH P then oldDensity (clouds (h1 c) slot) (x + 1) y
             else (case m_rightCloud (h1 c) of
                     Some r \<Rightarrow> oldDensity (clouds (h1 r) slot) 0 y
                   | None \<Rightarrow> fint P 0)) =
            (if x + 1 < CLOUD_SIMULATION_WIDTH P then oldDensity (clouds (h c) slot) (x + 1) y
             else (case m_rightCloud (h c) of
                     Some r \<Rightarrow> oldDensity (clouds (h r) slot) 0 y
                   | None \<Rightarrow> fint P 0))"
    using right nb [OF self(4)] by (simp add: links)
  have "oldDensity (clouds (h' c) slot) x y =
     fadd P (fmul P (density (clouds (h c) slot) x y) (fsub P (fint P 1) a))
       (fdiv P
          (fmul P
             (fadd P
                (fadd P
                   (fadd P
                      (if y > 0 then oldDensity (clouds (h' c) slot) x (y - 1)
                       else (case m_upperCloud (h c) of
                               Some u \<Rightarrow> oldDensity (clouds (h u) slot) x (CLOUD_SIMULATION_HEIGHT P - 1)
                             | None \<Rightarrow> fint P 0))
                      (if y + 1 < CLOUD_SIMULATION_HEIGHT P then oldDensity (clouds (h c) slot) x (y + 1)
                       else (case m_lowerCloud (h c) of
                               Some l \<Rightarrow> oldDensity (clouds (h l) slot) x 0
                             | None \<Rightarrow> fint P 0)))
                   (if x > 0 then oldDensity (clouds (h' c) slot) (x - 1) y
                    else (case m_leftCloud (h c) of
                            Some l \<Rightarrow> oldDensity (clouds (h l) slot) (CLOUD_SIMULATION_WIDTH P - 1) y
                          | None \<Rightarrow> fint P 0)))
                (if x + 1 < CLOUD_SIMULATION_WIDTH P then oldDensity (clouds (h c) slot) (x + 1) y
                 else (case m_rightCloud (h c) of
                         Some r \<Rightarrow> oldDensity (clouds (h r) slot) 0 y
                       | None \<Rightarrow> fint P 0)))
             a)
          (fint P 4))"
    by (simp only: this_cell diffuseCell_value U Lo Le Ri dens)
  then show ?thesis
    unfolding h'_def a_def .
qed

lemma diffuse_density:
  "density (clouds (diffuse P r h c slot dt t) i) = density (clouds (h t) i)"
  by (simp add: diffuse_def Let_def forCells_cellList diffuse_fold_density)

lemma diffuse_other: "t \<noteq> c \<Longrightarrow> diffuse P r h c slot dt t = h t"
  by (simp add: diffuse_def Let_def forCells_cellList diffuse_fold_other)

lemma system1_diffuse_value:
  "oldDensity (clouds (diffuse P3 (1 / 2) (components system1) 1 0 1 1) 0) 0 0 = 5"
proof -
  have b: "(0::nat) < CLOUD_SIMULATION_WIDTH P3" "(0::nat) < CLOUD_SIMULATION_HEIGHT P3"
    by (simp_all add: P3_def)
  have l: "m_upperCloud (components system1 1) \<noteq> Some 1" "m_lowerCloud (components system1 1) \<noteq> Some 1"
    "m_leftCloud (components system1 1) \<noteq> Some 1" "m_rightCloud (components system1 1) \<noteq> Some 1"
    by (simp_all add: system1_def cloud1_def)
  have v: "components system1 1 = cloud1" by (simp add: system1_def)
  have o: "oldDensity (clouds cloud1 0) = (\<lambda>x y. 0)" "density (clouds cloud1 0) 0 0 = 10"
    "m_upperCloud cloud1 = None" "m_leftCloud cloud1 = None"
    by (simp_all add: cloud1_def defaultCloudData_def P3_def)
  have p: "fint P3 = real_of_int" "fadd P3 = (+)" "fsub P3 = (-)" "fmul P3 = (*)" "fdiv P3 = (/)"
    "CLOUD_SIMULATION_WIDTH P3 = 3" "CLOUD_SIMULATION_HEIGHT P3 = 3"
    by (simp_all add: P3_def)
  show ?thesis
    unfolding diffuse_cell_value [where P = P3 and h = "components system1" and c = 1, OF b l] v o p by simp
qed

text \<open>
  C1. One pass of \<open>diffuse\<close> writes to every cell \<open>(x, y)\<close> of the history grid of the
  slot the value \<^verbatim>\<open>density[x][y]*(1-a) + (up+down+left+right)*a/4\<close> with \<open>a = dt *
  diffRate\<close>: the first term reads the live density grid, not the history grid. The
  four neighbour values are read from the history grid while the pass overwrites it
  column by column: the upper cell \<open>(x, y-1)\<close> and the left cell \<open>(x-1, y)\<close> already
  hold the values of this pass, the lower cell \<open>(x, y+1)\<close> and the right cell
  \<open>(x+1, y)\<close> still hold the values from before the pass. At an edge the value is the
  edge cell of the history grid of the neighbouring cloud (a cloud other than this
  one), and zero when the neighbour reference is null. The live density grid is not
  written.
\<close>

theorem diffuse_reads_live_density:
  assumes "x < CLOUD_SIMULATION_WIDTH P" and "y < CLOUD_SIMULATION_HEIGHT P"
    and "m_upperCloud (h c) \<noteq> Some c" and "m_lowerCloud (h c) \<noteq> Some c"
    and "m_leftCloud (h c) \<noteq> Some c" and "m_rightCloud (h c) \<noteq> Some c"
  shows "oldDensity (clouds (diffuse P r h c slot dt c) slot) x y =
     fadd P (fmul P (density (clouds (h c) slot) x y) (fsub P (fint P 1) (fmul P (fint P dt) r)))
       (fdiv P
          (fmul P
             (fadd P
                (fadd P
                   (fadd P
                      (if y > 0 then oldDensity (clouds (diffuse P r h c slot dt c) slot) x (y - 1)
                       else (case m_upperCloud (h c) of
                               Some u \<Rightarrow> oldDensity (clouds (h u) slot) x (CLOUD_SIMULATION_HEIGHT P - 1)
                             | None \<Rightarrow> fint P 0))
                      (if y + 1 < CLOUD_SIMULATION_HEIGHT P then oldDensity (clouds (h c) slot) x (y + 1)
                       else (case m_lowerCloud (h c) of
                               Some l \<Rightarrow> oldDensity (clouds (h l) slot) x 0
                             | None \<Rightarrow> fint P 0)))
                   (if x > 0 then oldDensity (clouds (diffuse P r h c slot dt c) slot) (x - 1) y
                    else (case m_leftCloud (h c) of
                            Some l \<Rightarrow> oldDensity (clouds (h l) slot) (CLOUD_SIMULATION_WIDTH P - 1) y
                          | None \<Rightarrow> fint P 0)))
                (if x + 1 < CLOUD_SIMULATION_WIDTH P then oldDensity (clouds (h c) slot) (x + 1) y
                 else (case m_rightCloud (h c) of
                         Some r \<Rightarrow> oldDensity (clouds (h r) slot) 0 y
                       | None \<Rightarrow> fint P 0)))
             (fmul P (fint P dt) r))
          (fint P 4)) \<and>
     density (clouds (diffuse P r h c slot dt c) slot) = density (clouds (h c) slot)"
  using diffuse_cell_value [where P = P and h = h and c = c, OF assms] by (simp add: diffuse_density)

theorem diffuse_reads_live_density_witness:
  "density (clouds (components system1 1) 0) 0 0 = 10 \<and>
   oldDensity (clouds (components system1 1) 0) 0 0 = 0 \<and>
   oldDensity (clouds (diffuse P3 (1 / 2) (components system1) 1 0 1 1) 0) 0 0 = 5 \<and>
   density (clouds (diffuse P3 (1 / 2) (components system1) 1 0 1 1) 0) 0 0 = 10"
proof -
  have b: "(0::nat) < CLOUD_SIMULATION_WIDTH P3" "(0::nat) < CLOUD_SIMULATION_HEIGHT P3"
    by (simp_all add: P3_def)
  have l: "m_upperCloud (components system1 1) \<noteq> Some 1" "m_lowerCloud (components system1 1) \<noteq> Some 1"
    "m_leftCloud (components system1 1) \<noteq> Some 1" "m_rightCloud (components system1 1) \<noteq> Some 1"
    by (simp_all add: system1_def cloud1_def)
  have d: "density (clouds (components system1 1) 0) 0 0 = 10"
    "oldDensity (clouds (components system1 1) 0) 0 0 = 0"
    by (simp_all add: system1_def cloud1_def defaultCloudData_def P3_def)
  from diffuse_reads_live_density [where P = P3 and h = "components system1" and c = 1 and r = "1 / 2"
         and slot = 0 and dt = 1, OF b l]
  have "density (clouds (diffuse P3 (1 / 2) (components system1) 1 0 1 1) 0) =
        density (clouds (components system1 1) 0)"
    by simp
  with d system1_diffuse_value show ?thesis by simp
qed

text \<open>
  The value is not the one of the spec's formula: for a cloud without neighbours whose
  live grid holds 10 and whose history grid holds 0 in every cell, with \<open>a = 1/2\<close>,
  the formula over the history values gives 0 for the cell \<open>(0, 0)\<close>, and \<open>diffuse\<close>
  writes 5.
\<close>

theorem diffuse_not_spec_formula_counterexample:
  "oldDensity (clouds (components system1 1) 0) 0 0 = 0 \<and>
   density (clouds (components system1 1) 0) 0 0 = 10 \<and>
   diffuseClaimed P3 (1 / 2) (components system1) 1 0 1 0 0 = 0 \<and>
   oldDensity (clouds (diffuse P3 (1 / 2) (components system1) 1 0 1 1) 0) 0 0 = 5"
proof -
  have d: "density (clouds (components system1 1) 0) 0 0 = 10"
    "oldDensity (clouds (components system1 1) 0) 0 0 = 0"
    by (simp_all add: system1_def cloud1_def defaultCloudData_def P3_def)
  have c: "diffuseClaimed P3 (1 / 2) (components system1) 1 0 1 0 0 = 0"
    by (simp add: diffuseClaimed_def Let_def system1_def cloud1_def defaultCloudData_def P3_def)
  from d c system1_diffuse_value show ?thesis by simp
qed

end
